theory Spec2Isabelle
  imports Complex_Main "HOL-Library.Log_Nat"
begin

section \<open>Values shared by the three programs\<close>

text \<open>
  A numpy/Python float is a binary64 value: a finite one is given by its exact real
  value, and there are the three special values of IEEE arithmetic. The sign of a zero
  is not tracked (it only decides the sign of an infinite quotient, which the inference
  service immediately passes to \<open>abs\<close>).
\<close>

datatype npfloat = Fin real | PInf | NInf | NaN

text \<open>
  Rounding a real to binary64, to nearest with ties to the even significand.
  \<open>binade x\<close> is the exponent of the power of two at or below a positive \<open>x\<close>; the
  unit in the last place is 52 binary places below it, and never below that of \<open>pow2 (- 1074)\<close>
  (the subnormal range). A result at or beyond \<open>pow2 1024\<close> overflows to an infinity.
\<close>

definition binade :: "real \<Rightarrow> int" where
  "binade x = (if 1 \<le> x then bitlen \<lfloor>x\<rfloor> - 1 else - bitlen (\<lceil>1 / x\<rceil> - 1))"

definition pow2 :: "int \<Rightarrow> real" where
  "pow2 e = (if 0 \<le> e then 2 ^ nat e else 1 / 2 ^ nat (- e))"

definition round_half_even :: "real \<Rightarrow> int" where
  "round_half_even y =
     (let f = \<lfloor>y\<rfloor>; d = y - of_int f
      in if d < 1 / 2 then f else if 1 / 2 < d then f + 1 else if even f then f else f + 1)"

definition round64 :: "real \<Rightarrow> npfloat" where
  "round64 x =
     (if x = 0 then Fin 0
      else (let e = max (binade \<bar>x\<bar> - 52) (- 1074);
                y = of_int (round_half_even (x / pow2 e)) * pow2 e
            in if y \<noteq> 0 \<and> 1024 \<le> binade \<bar>y\<bar> then (if 0 < x then PInf else NInf)
               else Fin y))"

text \<open>The arithmetic of the service: each operation rounds its exact result.\<close>

fun fl_sub :: "npfloat \<Rightarrow> npfloat \<Rightarrow> npfloat" where
  "fl_sub NaN y = NaN"
| "fl_sub x NaN = NaN"
| "fl_sub (Fin a) (Fin b) = round64 (a - b)"
| "fl_sub (Fin a) PInf = NInf"
| "fl_sub (Fin a) NInf = PInf"
| "fl_sub PInf PInf = NaN"
| "fl_sub PInf y = PInf"
| "fl_sub NInf NInf = NaN"
| "fl_sub NInf y = NInf"

text \<open>numpy division: a zero divisor gives an infinity or NaN (with a warning), never an exception.\<close>

fun fl_div :: "npfloat \<Rightarrow> npfloat \<Rightarrow> npfloat" where
  "fl_div NaN y = NaN"
| "fl_div x NaN = NaN"
| "fl_div (Fin a) (Fin b) =
     (if b = 0 then (if a = 0 then NaN else if 0 < a then PInf else NInf)
      else round64 (a / b))"
| "fl_div (Fin a) PInf = Fin 0"
| "fl_div (Fin a) NInf = Fin 0"
| "fl_div PInf (Fin b) = (if 0 \<le> b then PInf else NInf)"
| "fl_div NInf (Fin b) = (if 0 \<le> b then NInf else PInf)"
| "fl_div PInf y = NaN"
| "fl_div NInf y = NaN"

fun fl_abs :: "npfloat \<Rightarrow> npfloat" where
  "fl_abs (Fin a) = Fin \<bar>a\<bar>"
| "fl_abs PInf = PInf"
| "fl_abs NInf = PInf"
| "fl_abs NaN = NaN"

text \<open>The comparison \<open>x > y\<close>: false as soon as one side is NaN.\<close>

fun fl_gt :: "npfloat \<Rightarrow> npfloat \<Rightarrow> bool" where
  "fl_gt NaN y = False"
| "fl_gt x NaN = False"
| "fl_gt (Fin a) (Fin b) = (b < a)"
| "fl_gt PInf PInf = False"
| "fl_gt PInf y = True"
| "fl_gt NInf y = False"
| "fl_gt (Fin a) NInf = True"
| "fl_gt (Fin a) PInf = False"

text \<open>
  Exceptions are values. \<open>StrOf e\<close> is the text \<open>str(e)\<close> of an exception, kept
  symbolic: the handler of \<open>predict\<close> builds its detail that way.
\<close>

datatype exc =
    HTTPException nat detail
  | KeyError string
  | ValueError string
  | TypeError string
  | DataError string
  | OtherError string
and detail = Text string | StrOf exc

section \<open>Inference service (api/app/main.py)\<close>

record stats =
  mean :: npfloat
  std :: npfloat

record PredictionRequest =
  temp :: npfloat
  humidity :: npfloat
  pressure :: npfloat
  wind_speed :: npfloat
  clouds_all :: npfloat
  hour :: int
  day_of_week :: int
  month :: int
  temp_lag_1 :: npfloat
  temp_rolling_mean_3 :: npfloat
  temp_rolling_std_3 :: npfloat

text \<open>
  \<open>request.dict()\<close>, which becomes the one-row frame \<open>features\<close>: the column names
  with the value of row 0. The integer fields are read back as numpy integers and enter
  the float arithmetic with their exact value.
\<close>

definition dict :: "PredictionRequest \<Rightarrow> (string \<times> npfloat) list" where
  "dict r =
     [(''temp'', temp r), (''humidity'', humidity r), (''pressure'', pressure r),
      (''wind_speed'', wind_speed r), (''clouds_all'', clouds_all r),
      (''hour'', Fin (of_int (hour r))), (''day_of_week'', Fin (of_int (day_of_week r))),
      (''month'', Fin (of_int (month r))), (''temp_lag_1'', temp_lag_1 r),
      (''temp_rolling_mean_3'', temp_rolling_mean_3 r),
      (''temp_rolling_std_3'', temp_rolling_std_3 r)]"

text \<open>
  The module's globals and the Prometheus metrics are the state of the service.
  \<open>model\<close> is \<open>None\<close> until a load succeeds; a loaded model is the function
  \<open>model.predict(features)[0]\<close>, which may raise. \<open>training_stats\<close> is the dictionary
  as its list of items, in insertion order. \<open>FEATURE_MEAN_SHIFT\<close> is the labelled gauge:
  a value per label that was ever set. The latency histogram measures real time and is
  left out.
\<close>

type_synonym predictor = "(string \<times> npfloat) list \<Rightarrow> exc + npfloat"

record service =
  model :: "predictor option"
  training_stats :: "(string \<times> stats) list"
  PREDICTION_COUNT :: nat
  PREDICTION_ERRORS :: nat
  OOD_RATIO :: npfloat
  FEATURE_MEAN_SHIFT :: "string \<rightharpoonup> npfloat"


text \<open>
  \<open>load_model\<close>: \<open>loaded\<close> is what \<open>mlflow.sklearn.load_model\<close> gave, a model or an
  exception. On an exception both globals keep their values.
\<close>

definition load_model :: "exc + predictor \<Rightarrow> service \<Rightarrow> service" where
  "load_model loaded s =
     (case loaded of
        Inl e \<Rightarrow> s
      | Inr m \<Rightarrow>
          s\<lparr>model := Some m,
            training_stats :=
              [(''temp'', \<lparr>mean = Fin 20, std = Fin 5\<rparr>),
               (''humidity'', \<lparr>mean = Fin 60, std = Fin 15\<rparr>)]\<rparr>)"

definition health_check :: "service \<Rightarrow> string \<times> bool" where
  "health_check s =
     (if model s \<noteq> None then (''healthy'', True) else (''unhealthy'', False))"

text \<open>
  The drift loop of \<open>predict\<close>, over the items of \<open>training_stats\<close>. The accumulator is
  \<open>ood_count\<close> and the labelled gauge.
\<close>

fun drift_loop ::
  "(string \<times> npfloat) list \<Rightarrow> (string \<times> stats) list \<Rightarrow> nat \<times> (string \<rightharpoonup> npfloat)
     \<Rightarrow> nat \<times> (string \<rightharpoonup> npfloat)" where
  "drift_loop features [] acc = acc"
| "drift_loop features ((col, st) # rest) (ood_count, gauge) =
     (case map_of features col of
        None \<Rightarrow> drift_loop features rest (ood_count, gauge)
      | Some val \<Rightarrow>
          (let z_score = fl_abs (fl_div (fl_sub val (mean st)) (std st))
           in drift_loop features rest
                (if fl_gt z_score (Fin 3) then ood_count + 1 else ood_count,
                 gauge(col \<mapsto> z_score))))"

text \<open>The body of the \<open>try\<close> block: the result or the exception raised, and the state left.\<close>

definition predict_body :: "service \<Rightarrow> PredictionRequest \<Rightarrow> (exc + npfloat) \<times> service" where
  "predict_body s request =
     (case model s of
        None \<Rightarrow> (Inl (HTTPException 503 (Text ''Model not loaded'')), s)
      | Some m \<Rightarrow>
          (let features = dict request;
               (ood_count, gauge) =
                 drift_loop features (training_stats s) (0, FEATURE_MEAN_SHIFT s);
               s1 = s\<lparr>FEATURE_MEAN_SHIFT := gauge\<rparr>;
               s2 = (if length (training_stats s) > 0
                     then s1\<lparr>OOD_RATIO :=
                            round64 (real ood_count / real (length (training_stats s)))\<rparr>
                     else s1)
           in (m features, s2)))"

text \<open>
  \<open>predict\<close>: the counter, the \<open>try\<close> block, and the handler \<open>except Exception\<close>, which
  catches every exception of the body (an \<open>HTTPException\<close> is one), counts it and raises
  status 500 with \<open>str(e)\<close> as detail.
\<close>

definition predict :: "service \<Rightarrow> PredictionRequest \<Rightarrow> (exc + npfloat) \<times> service" where
  "predict s request =
     (let s0 = s\<lparr>PREDICTION_COUNT := PREDICTION_COUNT s + 1\<rparr>
      in case predict_body s0 request of
           (Inl e, s') \<Rightarrow>
             (Inl (HTTPException 500 (StrOf e)),
              s'\<lparr>PREDICTION_ERRORS := PREDICTION_ERRORS s' + 1\<rparr>)
         | (Inr prediction, s') \<Rightarrow> (Inr prediction, s'))"


section \<open>Data frames, as the two pipeline scripts use pandas\<close>

text \<open>
  A cell of a frame read from CSV is missing (\<open>NaN\<close>, \<open>NaT\<close>), a finite number or a
  string; \<open>pd.to_datetime\<close> turns a cell into a timestamp, the count of nanoseconds
  since the epoch that pandas stores. A frame is its columns in order, each a name and
  the cells of that column; all columns of a frame have the same length.
\<close>

datatype cell = Null | Num real | Str string | Time int

type_synonym dataframe = "(string \<times> cell list) list"

definition columns :: "dataframe \<Rightarrow> string list" where
  "columns df = map fst df"

definition nrows :: "dataframe \<Rightarrow> nat" where
  "nrows df = (case df of [] \<Rightarrow> 0 | (k, cs) # rest \<Rightarrow> length cs)"

text \<open>\<open>df[name]\<close> raises \<open>KeyError\<close> for a column the frame does not have.\<close>

definition getcol :: "dataframe \<Rightarrow> string \<Rightarrow> exc + cell list" where
  "getcol df name = (case map_of df name of None \<Rightarrow> Inl (KeyError name) | Some cs \<Rightarrow> Inr cs)"

text \<open>\<open>df[name] = cs\<close> replaces the column in place, or appends a new one.\<close>

definition setcol :: "dataframe \<Rightarrow> string \<Rightarrow> cell list \<Rightarrow> dataframe" where
  "setcol df name cs =
     (if name \<in> set (columns df)
      then map (\<lambda>(k, v). if k = name then (k, cs) else (k, v)) df
      else df @ [(name, cs)])"

text \<open>\<open>df[cols]\<close> with a list of names: the sub-frame, or \<open>KeyError\<close>.\<close>

fun select :: "string list \<Rightarrow> dataframe \<Rightarrow> exc + dataframe" where
  "select [] df = Inr []"
| "select (c # cs) df =
     (case getcol df c of
        Inl e \<Rightarrow> Inl e
      | Inr v \<Rightarrow> (case select cs df of Inl e \<Rightarrow> Inl e | Inr sub \<Rightarrow> Inr ((c, v) # sub)))"

text \<open>Reading row \<open>i\<close> of a column; the frames of this theory are only read in range.\<close>

definition cell_at :: "cell list \<Rightarrow> nat \<Rightarrow> cell" where
  "cell_at cs i = (if i < length cs then cs ! i else Null)"

text \<open>The frame made of the rows \<open>idx\<close>, in that order.\<close>

definition take_rows :: "nat list \<Rightarrow> dataframe \<Rightarrow> dataframe" where
  "take_rows idx df = map (\<lambda>(k, cs). (k, map (cell_at cs) idx)) df"

text \<open>\<open>df.isnull().any().any()\<close> and the non-zero entries of \<open>df.isnull().sum()\<close>.\<close>

definition isnull_any :: "dataframe \<Rightarrow> bool" where
  "isnull_any df = list_ex (\<lambda>(k, cs). Null \<in> set cs) df"

definition null_counts :: "dataframe \<Rightarrow> (string \<times> nat) list" where
  "null_counts df =
     filter (\<lambda>(k, n). n > 0) (map (\<lambda>(k, cs). (k, length (filter (\<lambda>c. c = Null) cs))) df)"

text \<open>\<open>df.dropna()\<close>: the rows without a missing cell, in order.\<close>

definition dropna :: "dataframe \<Rightarrow> dataframe" where
  "dropna df =
     take_rows (filter (\<lambda>i. list_all (\<lambda>(k, cs). cell_at cs i \<noteq> Null) df) [0..<nrows df]) df"

text \<open>
  \<open>df.sort_values(by)\<close>. The script asks for no sorting algorithm, so pandas sorts the
  key column with its default \<open>kind='quicksort'\<close>; which order that gives to rows with
  equal keys is not decided by the script. The index sort is therefore a parameter
  \<open>argsort\<close>: the row numbers in the order the sort puts them.
\<close>

definition sort_values :: "(cell list \<Rightarrow> nat list) \<Rightarrow> dataframe \<Rightarrow> string \<Rightarrow> exc + dataframe" where
  "sort_values argsort df by_col =
     (case getcol df by_col of
        Inl e \<Rightarrow> Inl e
      | Inr keys \<Rightarrow> Inr (take_rows (argsort keys) df))"

text \<open>
  \<open>pd.to_datetime(series)\<close>: a missing cell stays missing (\<open>NaT\<close>), every other cell
  is parsed, and a cell that does not parse raises. The parser of a single cell is the
  parameter \<open>parse\<close>.
\<close>

fun to_datetime :: "(cell \<Rightarrow> int option) \<Rightarrow> cell list \<Rightarrow> exc + cell list" where
  "to_datetime parse [] = Inr []"
| "to_datetime parse (c # cs) =
     (if c = Null
      then (case to_datetime parse cs of Inl e \<Rightarrow> Inl e | Inr ts \<Rightarrow> Inr (Null # ts))
      else (case parse c of
              None \<Rightarrow> Inl (ValueError ''time data does not match format'')
            | Some t \<Rightarrow>
                (case to_datetime parse cs of Inl e \<Rightarrow> Inl e | Inr ts \<Rightarrow> Inr (Time t # ts))))"

text \<open>
  The calendar fields of a timestamp: \<open>.dt.hour\<close>, \<open>.dt.dayofweek\<close> (Monday is 0; the
  epoch was a Thursday) and \<open>.dt.month\<close> (the civil month of the day number).
\<close>

definition dt_hour :: "int \<Rightarrow> int" where
  "dt_hour t = (t div 3600000000000) mod 24"

definition dt_dayofweek :: "int \<Rightarrow> int" where
  "dt_dayofweek t = (t div 86400000000000 + 3) mod 7"

definition dt_month :: "int \<Rightarrow> int" where
  "dt_month t =
     (let z = t div 86400000000000 + 719468;
          doe = z mod 146097;
          yoe = (doe - doe div 1460 + doe div 36524 - doe div 146096) div 365;
          doy = doe - (365 * yoe + yoe div 4 - yoe div 100);
          mp = (5 * doy + 2) div 153
      in if mp < 10 then mp + 3 else mp - 9)"

text \<open>A calendar field of a datetime column: missing where the timestamp is.\<close>

definition dt_field :: "(int \<Rightarrow> int) \<Rightarrow> cell list \<Rightarrow> cell list" where
  "dt_field f cs = map (\<lambda>c. case c of Time t \<Rightarrow> Num (of_int (f t)) | _ \<Rightarrow> Null) cs"

text \<open>\<open>series.shift(periods)\<close>: the cells move down (up when negative), missing cells fill in.\<close>

definition shift :: "int \<Rightarrow> cell list \<Rightarrow> cell list" where
  "shift periods cs =
     (let n = length cs; k = nat \<bar>periods\<bar>
      in if 0 \<le> periods then replicate (min k n) Null @ take (n - k) cs
         else drop k cs @ replicate (min k n) Null)"

text \<open>
  \<open>series.rolling(window=w)\<close> aggregates numbers: a column holding a string or a
  timestamp raises. The window of row \<open>i\<close> is the \<open>w\<close> cells ending at \<open>i\<close>; with fewer
  than \<open>w\<close> cells, or a missing one among them, the result is missing. \<open>mean()\<close> is the
  arithmetic mean, \<open>std()\<close> the sample standard deviation (divisor one less than the
  count).
\<close>

fun numeric :: "cell list \<Rightarrow> exc + real option list" where
  "numeric [] = Inr []"
| "numeric (c # cs) =
     (case c of
        Str s \<Rightarrow> Inl (DataError ''No numeric types to aggregate'')
      | Time t \<Rightarrow> Inl (DataError ''No numeric types to aggregate'')
      | Null \<Rightarrow> (case numeric cs of Inl e \<Rightarrow> Inl e | Inr xs \<Rightarrow> Inr (None # xs))
      | Num x \<Rightarrow> (case numeric cs of Inl e \<Rightarrow> Inl e | Inr xs \<Rightarrow> Inr (Some x # xs)))"

definition agg_mean :: "real list \<Rightarrow> real option" where
  "agg_mean ys = (if ys = [] then None else Some (sum_list ys / real (length ys)))"

definition agg_std :: "real list \<Rightarrow> real option" where
  "agg_std ys =
     (if length ys \<le> 1 then None
      else (let m = sum_list ys / real (length ys)
            in Some (sqrt (sum_list (map (\<lambda>y. (y - m)\<^sup>2) ys) / real (length ys - 1)))))"

definition rolling :: "nat \<Rightarrow> (real list \<Rightarrow> real option) \<Rightarrow> real option list \<Rightarrow> cell list" where
  "rolling w agg xs =
     map (\<lambda>i. if i + 1 < w then Null
              else (case those (take w (drop (i + 1 - w) xs)) of
                      None \<Rightarrow> Null
                    | Some ys \<Rightarrow> (case agg ys of None \<Rightarrow> Null | Some y \<Rightarrow> Num y)))
         [0..<length xs]"

definition and_then :: "exc + 'a \<Rightarrow> ('a \<Rightarrow> exc + 'b) \<Rightarrow> exc + 'b" where
  "and_then x f = (case x of Inl e \<Rightarrow> Inl e | Inr v \<Rightarrow> f v)"

section \<open>Validation (airflow/dags/scripts/validate.py)\<close>

text \<open>
  What the script prints, and how it ends: \<open>sys.exit(1)\<close> or a normal return. The
  exit is not an \<open>Exception\<close>, so the handler at the end of the \<open>try\<close> block does not
  catch it; every other exception reaches that handler, which prints it and exits.
\<close>

datatype message =
    NullValuesFound "(string \<times> nat) list"
  | CriticalNulls
  | MissingExpectedColumns "string list"
  | DataTooOld int
  | ValidationPassed
  | ValidationFailedWithError exc

datatype ending = Exit1 | Returned

definition critical_cols :: "string list" where
  "critical_cols = [''temp'', ''humidity'', ''pressure'', ''wind_speed'']"

definition expected_cols :: "string list" where
  "expected_cols = [''dt'', ''temp'', ''humidity'', ''pressure'', ''wind_speed'', ''collection_time'']"

text \<open>
  \<open>validate_data\<close> on the frame read from the latest file. \<open>to_datetime_max\<close> is
  \<open>pd.to_datetime(series.max())\<close>: the exception it raises, or the latest timestamp
  (\<open>None\<close> for \<open>NaT\<close>, whose age compares false). \<open>now\<close> is the clock, in nanoseconds
  like the timestamps; both are naive local times, as the extraction script writes them.
\<close>

definition validate_data ::
  "(cell list \<Rightarrow> exc + int option) \<Rightarrow> int \<Rightarrow> dataframe \<Rightarrow> message list \<times> ending" where
  "validate_data to_datetime_max now df =
     (let out1 = (if isnull_any df then [NullValuesFound (null_counts df)] else [])
      in case (if isnull_any df
               then (case select critical_cols df of
                       Inl e \<Rightarrow> Inl e
                     | Inr sub \<Rightarrow> Inr (isnull_any sub))
               else Inr False) of
           Inl e \<Rightarrow> (out1 @ [ValidationFailedWithError e], Exit1)
         | Inr True \<Rightarrow> (out1 @ [CriticalNulls], Exit1)
         | Inr False \<Rightarrow>
             (let missing_cols = filter (\<lambda>col. col \<notin> set (columns df)) expected_cols
              in if missing_cols \<noteq> [] then (out1 @ [MissingExpectedColumns missing_cols], Exit1)
                 else if ''collection_time'' \<in> set (columns df)
                 then (case and_then (getcol df ''collection_time'') to_datetime_max of
                         Inl e \<Rightarrow> (out1 @ [ValidationFailedWithError e], Exit1)
                       | Inr None \<Rightarrow> (out1 @ [ValidationPassed], Returned)
                       | Inr (Some latest_time) \<Rightarrow>
                           (let age = now - latest_time
                            in (out1
                                @ (if real_of_int age / 1000000000 > 86400
                                   then [DataTooOld age] else [])
                                @ [ValidationPassed], Returned)))
                 else (out1 @ [ValidationPassed], Returned)))"

section \<open>Feature transform (airflow/dags/scripts/transform.py)\<close>

text \<open>
  \<open>transform_data\<close> from the frame read from the latest file to \<open>df_clean\<close>, the frame
  the script writes out; \<open>Inl e\<close> is the exception that the handler prints before it
  exits. Writing the file and the profiling report that follow are left out.
\<close>

definition transform_data ::
  "(cell \<Rightarrow> int option) \<Rightarrow> (cell list \<Rightarrow> nat list) \<Rightarrow> dataframe \<Rightarrow> exc + dataframe" where
  "transform_data parse argsort df =
     and_then (getcol df ''dt_txt'') (\<lambda>c1.
     and_then (to_datetime parse c1) (\<lambda>t1.
     let df1 = setcol df ''dt_txt'' t1 in
     and_then (getcol df1 ''collection_time'') (\<lambda>c2.
     and_then (to_datetime parse c2) (\<lambda>t2.
     let df2 = setcol df1 ''collection_time'' t2 in
     and_then (sort_values argsort df2 ''dt_txt'') (\<lambda>df3.
     and_then (getcol df3 ''dt_txt'') (\<lambda>dt.
     let df4 = setcol df3 ''hour'' (dt_field dt_hour dt);
         df5 = setcol df4 ''day_of_week'' (dt_field dt_dayofweek dt);
         df6 = setcol df5 ''month'' (dt_field dt_month dt) in
     and_then (getcol df6 ''temp'') (\<lambda>temp1.
     let df7 = setcol df6 ''temp_lag_1'' (shift 1 temp1) in
     and_then (getcol df7 ''humidity'') (\<lambda>hum.
     let df8 = setcol df7 ''humidity_lag_1'' (shift 1 hum) in
     and_then (getcol df8 ''temp'') (\<lambda>temp2.
     and_then (numeric temp2) (\<lambda>xs.
     let df9 = setcol df8 ''temp_rolling_mean_3'' (rolling 3 agg_mean xs) in
     and_then (getcol df9 ''temp'') (\<lambda>temp3.
     and_then (numeric temp3) (\<lambda>ys.
     let df10 = setcol df9 ''temp_rolling_std_3'' (rolling 3 agg_std ys) in
     and_then (getcol df10 ''temp'') (\<lambda>temp4.
     let df11 = setcol df10 ''target_temp'' (shift (- 1) temp4)
     in Inr (dropna df11))))))))))))))"

section \<open>Concrete instances of the parameters\<close>

text \<open>
  Used only where a definition is evaluated on a concrete input. A parser that knows
  the listed texts, with the timestamps pandas gives them, and keeps a timestamp; and a
  batch of four forecast rows as the extraction script writes them.
\<close>

definition parse_table :: "(string \<times> int) list \<Rightarrow> cell \<Rightarrow> int option" where
  "parse_table tbl c = (case c of Str s \<Rightarrow> map_of tbl s | Time t \<Rightarrow> Some t | _ \<Rightarrow> None)"

definition sample_times :: "(string \<times> int) list" where
  "sample_times =
     [(''2024-01-01 00:00:00'', 1704067200000000000),
      (''2024-01-01 03:00:00'', 1704078000000000000),
      (''2024-01-01 06:00:00'', 1704088800000000000),
      (''2024-01-01 09:00:00'', 1704099600000000000),
      (''2024-01-01T00:05:00'', 1704067500000000000)]"

definition sample_batch :: dataframe where
  "sample_batch =
     [(''dt'', [Num 1704067200, Num 1704078000, Num 1704088800, Num 1704099600]),
      (''dt_txt'', [Str ''2024-01-01 00:00:00'', Str ''2024-01-01 03:00:00'',
                    Str ''2024-01-01 06:00:00'', Str ''2024-01-01 09:00:00'']),
      (''temp'', [Num 18, Num 20, Num 22, Num 21]),
      (''feels_like'', [Num 17, Num 19, Num 21, Num 20]),
      (''pressure'', [Num 1013, Num 1012, Num 1012, Num 1011]),
      (''humidity'', [Num 60, Num 62, Num 58, Num 55]),
      (''weather_main'', [Str ''Clouds'', Str ''Clouds'', Str ''Clear'', Str ''Clear'']),
      (''weather_description'', [Str ''few clouds'', Str ''few clouds'', Str ''clear sky'', Str ''clear sky'']),
      (''wind_speed'', [Num 4, Num 5, Num 3, Num 4]),
      (''wind_deg'', [Num 200, Num 210, Num 190, Num 180]),
      (''clouds_all'', [Num 20, Num 24, Num 0, Num 0]),
      (''collection_time'', [Str ''2024-01-01T00:05:00'', Str ''2024-01-01T00:05:00'',
                             Str ''2024-01-01T00:05:00'', Str ''2024-01-01T00:05:00''])]"

text \<open>
  One index sort: ascending, missing keys last, rows with equal keys left in their
  order.
\<close>

fun key_le :: "cell \<Rightarrow> cell \<Rightarrow> bool" where
  "key_le (Time a) (Time b) = (a \<le> b)"
| "key_le (Num a) (Num b) = (a \<le> b)"
| "key_le x Null = True"
| "key_le x y = False"

fun insert_row :: "cell list \<Rightarrow> nat \<Rightarrow> nat list \<Rightarrow> nat list" where
  "insert_row keys i [] = [i]"
| "insert_row keys i (j # js) =
     (if key_le (cell_at keys i) (cell_at keys j) then i # j # js
      else j # insert_row keys i js)"

definition argsort_insertion :: "cell list \<Rightarrow> nat list" where
  "argsort_insertion keys = foldr (insert_row keys) [0..<length keys] []"

text \<open>
  One instance of \<open>pd.to_datetime(series.max())\<close> on a column read from CSV. A column
  of numbers and missing cells is a float column: its maximum skips the missing cells.
  A column of texts is compared as Python compares strings, by code point. The maximum
  alone is parsed; without any value it is \<open>NaT\<close>. A column that mixes texts with
  missing cells or numbers raises, since Python does not compare a string with a float.
\<close>

fun str_less :: "string \<Rightarrow> string \<Rightarrow> bool" where
  "str_less [] [] = False"
| "str_less [] (y # ys) = True"
| "str_less (x # xs) [] = False"
| "str_less (x # xs) (y # ys) = ((of_char x :: nat) < of_char y \<or> (x = y \<and> str_less xs ys))"

definition is_float_cell :: "cell \<Rightarrow> bool" where
  "is_float_cell c = (case c of Null \<Rightarrow> True | Num x \<Rightarrow> True | _ \<Rightarrow> False)"

definition is_text_cell :: "cell \<Rightarrow> bool" where
  "is_text_cell c = (case c of Str s \<Rightarrow> True | _ \<Rightarrow> False)"

fun numbers_of :: "cell list \<Rightarrow> real list" where
  "numbers_of [] = []"
| "numbers_of (Num x # cs) = x # numbers_of cs"
| "numbers_of (c # cs) = numbers_of cs"

fun texts_of :: "cell list \<Rightarrow> string list" where
  "texts_of [] = []"
| "texts_of (Str s # cs) = s # texts_of cs"
| "texts_of (c # cs) = texts_of cs"

definition read_time :: "(cell \<Rightarrow> int option) \<Rightarrow> cell \<Rightarrow> exc + int option" where
  "read_time parse c =
     (case parse c of
        None \<Rightarrow> Inl (ValueError ''Unknown datetime string format'')
      | Some t \<Rightarrow> Inr (Some t))"

definition latest_time_of :: "(cell \<Rightarrow> int option) \<Rightarrow> cell list \<Rightarrow> exc + int option" where
  "latest_time_of parse cs =
     (if list_all is_float_cell cs
      then (case numbers_of cs of
              [] \<Rightarrow> Inr None
            | x # xs \<Rightarrow> read_time parse (Num (fold max xs x)))
      else if list_all is_text_cell cs
      then (case texts_of cs of
              [] \<Rightarrow> Inr None
            | t # ts \<Rightarrow> read_time parse (Str (fold (\<lambda>a b. if str_less b a then a else b) ts t)))
      else Inl (TypeError ''not supported between instances of str and float''))"

text \<open>
  A stand-in for the external regressor, used only where a concrete loaded service is
  evaluated: it predicts the current temperature.
\<close>

definition persistence_model :: predictor where
  "persistence_model features =
     (case map_of features ''temp'' of None \<Rightarrow> Inl (KeyError ''temp'') | Some v \<Rightarrow> Inr v)"

definition sample_request :: "real \<Rightarrow> real \<Rightarrow> PredictionRequest" where
  "sample_request t h =
     \<lparr>temp = Fin t, humidity = Fin h, pressure = Fin 1013, wind_speed = Fin 4,
      clouds_all = Fin 40, hour = 12, day_of_week = 0, month = 6, temp_lag_1 = Fin t,
      temp_rolling_mean_3 = Fin t, temp_rolling_std_3 = Fin 1\<rparr>"


section \<open>Properties of the inference service\<close>

subsection \<open>Rounding\<close>

text \<open>\<open>binade\<close> finds the power of two at or below a positive number.\<close>

lemma binade_bounds:
  assumes "0 < x"
  shows "pow2 (binade x) \<le> x \<and> x < pow2 (binade x + 1)"
proof (cases "1 \<le> x")
  case True
  then have m: "0 < \<lfloor>x\<rfloor>" by simp
  from bitlen_bounds [OF m] have b: "2 ^ nat (bitlen \<lfloor>x\<rfloor> - 1) \<le> \<lfloor>x\<rfloor>" "\<lfloor>x\<rfloor> < 2 ^ nat (bitlen \<lfloor>x\<rfloor>)"
    by auto
  have ge1: "1 \<le> bitlen \<lfloor>x\<rfloor>" using m by (simp add: bitlen_alt_def)
  have lo: "(2::real) ^ nat (bitlen \<lfloor>x\<rfloor> - 1) \<le> x"
  proof -
    have "real_of_int (2 ^ nat (bitlen \<lfloor>x\<rfloor> - 1)) \<le> real_of_int \<lfloor>x\<rfloor>"
      using b(1) by (rule of_int_le_iff [THEN iffD2])
    then have "2 ^ nat (bitlen \<lfloor>x\<rfloor> - 1) \<le> real_of_int \<lfloor>x\<rfloor>" by simp
    moreover have "real_of_int \<lfloor>x\<rfloor> \<le> x" by simp
    ultimately show ?thesis by linarith
  qed
  have hi: "x < (2::real) ^ nat (bitlen \<lfloor>x\<rfloor>)"
  proof -
    have "\<lfloor>x\<rfloor> + 1 \<le> 2 ^ nat (bitlen \<lfloor>x\<rfloor>)" using b(2) by simp
    then have "real_of_int (\<lfloor>x\<rfloor> + 1) \<le> real_of_int (2 ^ nat (bitlen \<lfloor>x\<rfloor>))"
      by (rule of_int_le_iff [THEN iffD2])
    then have le: "real_of_int \<lfloor>x\<rfloor> + 1 \<le> 2 ^ nat (bitlen \<lfloor>x\<rfloor>)" by simp
    have "x < real_of_int \<lfloor>x\<rfloor> + 1" by linarith
    with le show ?thesis by linarith
  qed
  have n: "nat (bitlen \<lfloor>x\<rfloor> - 1 + 1) = nat (bitlen \<lfloor>x\<rfloor>)" by simp
  show ?thesis using True lo hi ge1 by (simp add: binade_def pow2_def n)
next
  case False
  define y where "y = 1 / x"
  have y1: "1 < y" using False assms by (simp add: y_def)
  define m where "m = \<lceil>y\<rceil> - 1"
  have m0: "0 < m" using y1 by (simp add: m_def)
  from bitlen_bounds [OF m0] have b: "2 ^ nat (bitlen m - 1) \<le> m" "m < 2 ^ nat (bitlen m)" by auto
  have ge1: "1 \<le> bitlen m" using m0 by (simp add: bitlen_alt_def)
  have ylo: "real_of_int m < y" unfolding m_def by linarith
  have yhi: "y \<le> real_of_int m + 1" unfolding m_def by linarith
  have hi: "y \<le> (2::real) ^ nat (bitlen m)"
  proof -
    have "m + 1 \<le> 2 ^ nat (bitlen m)" using b(2) by simp
    then have "real_of_int (m + 1) \<le> real_of_int (2 ^ nat (bitlen m))"
      by (rule of_int_le_iff [THEN iffD2])
    then have "real_of_int m + 1 \<le> 2 ^ nat (bitlen m)" by simp
    with yhi show ?thesis by linarith
  qed
  have lo: "(2::real) ^ nat (bitlen m - 1) < y"
  proof -
    have "real_of_int (2 ^ nat (bitlen m - 1)) \<le> real_of_int m"
      using b(1) by (rule of_int_le_iff [THEN iffD2])
    then have "2 ^ nat (bitlen m - 1) \<le> real_of_int m" by simp
    with ylo show ?thesis by linarith
  qed
  have x: "x = 1 / y" using assms by (simp add: y_def)
  have p: "pow2 (- bitlen m) = 1 / 2 ^ nat (bitlen m)"
    using ge1 by (simp add: pow2_def)
  have q: "pow2 (- bitlen m + 1) = 1 / 2 ^ nat (bitlen m - 1)"
  proof (cases "bitlen m = 1")
    case True then show ?thesis by (simp add: pow2_def)
  next
    case False
    with ge1 have "\<not> 0 \<le> - bitlen m + 1" by simp
    moreover have "nat (- (- bitlen m + 1)) = nat (bitlen m - 1)" by simp
    ultimately show ?thesis by (simp add: pow2_def)
  qed
  have a1: "1 / 2 ^ nat (bitlen m) \<le> x"
    unfolding x using hi y1 by (simp add: frac_le)
  have a2: "x < 1 / 2 ^ nat (bitlen m - 1)"
    unfolding x using lo by (simp add: frac_less2)
  have "binade x = - bitlen m" using False by (simp add: binade_def m_def y_def)
  with a1 a2 p q show ?thesis by simp
qed

lemma round_half_even_minus: "round_half_even (- y) = - round_half_even y"
proof (cases "y = of_int \<lfloor>y\<rfloor>")
  case True
  then obtain k :: int where "y = of_int k" by metis
  then show ?thesis by (simp add: round_half_even_def Let_def)
next
  case False
  then have nz: "y - of_int \<lfloor>y\<rfloor> \<noteq> 0" by simp
  have fl: "\<lfloor>- y\<rfloor> = - \<lfloor>y\<rfloor> - 1"
    using False by (simp add: floor_eq_iff) linarith
  have d: "0 \<le> y - of_int \<lfloor>y\<rfloor>" "y - of_int \<lfloor>y\<rfloor> < 1" by linarith+
  show ?thesis
    using nz d by (auto simp: round_half_even_def Let_def fl)
qed

lemma pow2_pos: "0 < pow2 e"
  by (simp add: pow2_def)

lemma round64_minus:
  "round64 (- x) = (case round64 x of Fin y \<Rightarrow> Fin (- y) | PInf \<Rightarrow> NInf | NInf \<Rightarrow> PInf | NaN \<Rightarrow> NaN)"
  by (simp add: round64_def Let_def round_half_even_minus)

lemma round64_abs: "round64 \<bar>x\<bar> = fl_abs (round64 x)"
proof (cases "0 \<le> x")
  case True
  have "0 \<le> round_half_even (x / pow2 e)" for e
  proof -
    have "0 \<le> x / pow2 e" using True pow2_pos [of e] by (intro divide_nonneg_pos) auto
    then have "0 \<le> \<lfloor>x / pow2 e\<rfloor>" by simp
    then show ?thesis by (auto simp: round_half_even_def Let_def)
  qed
  then have "0 \<le> of_int (round_half_even (x / pow2 e)) * pow2 e" for e
    using pow2_pos [of e] by (simp add: less_imp_le)
  with True show ?thesis by (auto simp: round64_def Let_def abs_of_nonneg)
next
  case False
  then have neg: "x < 0" by simp
  have "round_half_even (x / pow2 e) \<le> 0" for e
  proof -
    have "0 \<le> round_half_even (- x / pow2 e)"
    proof -
      have "0 \<le> - x / pow2 e" using neg pow2_pos [of e] by (intro divide_nonneg_pos) auto
      then have "0 \<le> \<lfloor>- x / pow2 e\<rfloor>" by simp
      then show ?thesis by (auto simp: round_half_even_def Let_def)
    qed
    then show ?thesis using round_half_even_minus [of "x / pow2 e"] by simp
  qed
  then have "of_int (round_half_even (x / pow2 e)) * pow2 e \<le> 0" for e
    using pow2_pos [of e] by (simp add: mult_le_0_iff less_imp_le)
  with neg show ?thesis
    by (auto simp: round64_def Let_def round64_minus abs_of_neg abs_of_nonpos round_half_even_minus)
qed

lemma round64_values:
  "round64 15 = Fin 15" "round64 3 = Fin 3" "round64 20 = Fin 20" "round64 4 = Fin 4"
  "round64 (1 / 2) = Fin (1 / 2)" "round64 1 = Fin 1"
  "round64 (5 - 1 / 2 ^ 50 - 20) = Fin (- 15)" "round64 (- 15 / 5) = Fin (- 3)"
  by code_simp+

subsection \<open>The drift loop\<close>

lemma drift_loop_count:
  "fst (drift_loop features profile (n, g)) =
     n + length (filter (\<lambda>(col, st). case map_of features col of None \<Rightarrow> False
           | Some v \<Rightarrow> fl_gt (fl_abs (fl_div (fl_sub v (mean st)) (std st))) (Fin 3)) profile)"
  by (induction profile arbitrary: n g) (auto simp: Let_def split: option.splits if_splits)

lemma drift_loop_gauge_other:
  "col \<notin> fst ` set profile \<Longrightarrow> snd (drift_loop features profile (n, g)) col = g col"
proof (induction profile arbitrary: n g)
  case Nil
  then show ?case by simp
next
  case (Cons q qs)
  obtain c t where q: "q = (c, t)" by (cases q)
  with Cons show ?case by (auto simp: Let_def split: option.splits)
qed

lemma drift_loop_gauge:
  "distinct (map fst profile) \<Longrightarrow> (col, st) \<in> set profile \<Longrightarrow> map_of features col = Some v \<Longrightarrow>
   snd (drift_loop features profile (n, g)) col
     = Some (fl_abs (fl_div (fl_sub v (mean st)) (std st)))"
proof (induction profile arbitrary: n g)
  case Nil
  then show ?case by simp
next
  case (Cons p profile)
  obtain c t where p: "p = (c, t)" by (cases p)
  show ?case
  proof (cases "(col, st) \<in> set profile")
    case True
    with Cons p show ?thesis by (auto simp: Let_def split: option.splits)
  next
    case False
    with Cons.prems have e: "c = col" "t = st" using p by auto
    have "col \<notin> fst ` set profile" using Cons.prems(1) p e by auto
    then show ?thesis using Cons.prems(3) by (simp add: p e Let_def drift_loop_gauge_other)
  qed
qed

lemma fl_abs_div:
  "\<not> fl_gt (Fin 0) s \<Longrightarrow> fl_abs (fl_div a s) = fl_div (fl_abs a) s"
proof (cases a; cases s)
  fix x y assume a: "a = Fin x" and s: "s = Fin y" and "\<not> fl_gt (Fin 0) s"
  then have y: "0 \<le> y" by simp
  show ?thesis
  proof (cases "y = 0")
    case True
    with a s show ?thesis by (auto simp: abs_if)
  next
    case False
    have "fl_abs (round64 (x / y)) = round64 \<bar>x / y\<bar>" by (rule round64_abs [symmetric])
    also have "\<bar>x / y\<bar> = \<bar>x\<bar> / y" using y by (simp add: abs_divide abs_of_nonneg)
    finally have "fl_abs (round64 (x / y)) = round64 (\<bar>x\<bar> / y)" .
    with False a s show ?thesis by simp
  qed
qed auto

lemma predict_body_loaded:
  "model s = Some m \<Longrightarrow>
   predict_body s request =
     (m (dict request),
      (if training_stats s = []
       then s\<lparr>FEATURE_MEAN_SHIFT :=
                snd (drift_loop (dict request) (training_stats s) (0, FEATURE_MEAN_SHIFT s))\<rparr>
       else s\<lparr>FEATURE_MEAN_SHIFT :=
                snd (drift_loop (dict request) (training_stats s) (0, FEATURE_MEAN_SHIFT s)),
              OOD_RATIO :=
                round64 (real (fst (drift_loop (dict request) (training_stats s)
                                  (0, FEATURE_MEAN_SHIFT s)))
                     / real (length (training_stats s)))\<rparr>))"
  by (simp add: predict_body_def Let_def split: prod.splits)

lemma predict_gauges:
  "model s = Some m \<Longrightarrow>
   FEATURE_MEAN_SHIFT (snd (predict s request))
     = snd (drift_loop (dict request) (training_stats s) (0, FEATURE_MEAN_SHIFT s))
   \<and> OOD_RATIO (snd (predict s request))
     = (if training_stats s = [] then OOD_RATIO s
        else round64 (real (fst (drift_loop (dict request) (training_stats s)
                               (0, FEATURE_MEAN_SHIFT s)))
                  / real (length (training_stats s))))"
  by (cases "m (dict request)") (simp_all add: predict_def predict_body_loaded Let_def)


lemma sample_scores:
  "fl_abs (fl_div (fl_sub (Fin 35) (Fin 20)) (Fin 5)) = Fin 3"
  "fl_div (fl_abs (fl_sub (Fin 35) (Fin 20))) (Fin 5) = Fin 3"
  "fl_abs (fl_div (fl_sub (Fin 40) (Fin 20)) (Fin 5)) = Fin 4"
  "fl_div (fl_abs (fl_sub (Fin 40) (Fin 20))) (Fin 5) = Fin 4"
  "fl_div (fl_abs (fl_sub (Fin (5629499534213119 / 1125899906842624)) (Fin 20))) (Fin 5) = Fin 3"
  "fl_div (fl_abs (fl_sub (Fin (2466424483427123 / 70368744177664)) (Fin 20))) (Fin 5)
     = Fin (6777917439192595 / 2 ^ 51)"
  by code_simp+



subsection \<open>The claims\<close>

text \<open>
  C2. In the unloaded state \<open>predict\<close> raises status 503 inside its own \<open>try\<close> block;
  the handler catches it and the caller gets status 500 whose detail is the text of the
  503 exception. No gauge is written, only the two counters move, and \<open>health_check\<close>
  reports that no model is loaded.
\<close>

theorem predict_unloaded_raises_500:
  "predict (s\<lparr>model := None\<rparr>) request =
     (Inl (HTTPException 500 (StrOf (HTTPException 503 (Text ''Model not loaded'')))),
      s\<lparr>model := None, PREDICTION_COUNT := PREDICTION_COUNT s + 1,
        PREDICTION_ERRORS := PREDICTION_ERRORS s + 1\<rparr>)
   \<and> fst (predict (s\<lparr>model := None\<rparr>) request)
       \<noteq> Inl (HTTPException 503 (Text ''Model not loaded''))
   \<and> health_check (s\<lparr>model := None\<rparr>) = (''unhealthy'', False)"
  by (simp add: predict_def predict_body_def health_check_def)

text \<open>
  C4. The loop counts a profile feature as out-of-distribution exactly when the feature
  is in the request and the computed \<open>|value - mean| / std\<close>, each operation rounded
  to binary64, is greater than 3 (for a standard deviation that is not negative, the
  loop's \<open>abs((value - mean) / std)\<close> is that number). With mean 20, standard
  deviation 5 and value 35 the score is 3 and the feature is not counted; the gauge of
  the loaded service shows 3.
\<close>

theorem ood_exactly_when_z_exceeds_3:
  assumes "\<forall>(col, st) \<in> set profile. \<not> fl_gt (Fin 0) (std st)"
  shows "fst (drift_loop features profile (0, gauge)) =
           length (filter (\<lambda>(col, st). case map_of features col of None \<Rightarrow> False
                     | Some v \<Rightarrow> fl_gt (fl_div (fl_abs (fl_sub v (mean st))) (std st)) (Fin 3))
                   profile)
         \<and> drift_loop [(''temp'', Fin 35)] [(''temp'', \<lparr>mean = Fin 20, std = Fin 5\<rparr>)]
             (0, Map.empty) = (0, [''temp'' \<mapsto> Fin 3])
         \<and> FEATURE_MEAN_SHIFT
             (snd (predict (load_model (Inr m) s) (sample_request 35 h))) ''temp''
             = Some (Fin 3)"
proof -
  have same: "filter (\<lambda>(col, st). case map_of features col of None \<Rightarrow> False
                 | Some v \<Rightarrow> fl_gt (fl_abs (fl_div (fl_sub v (mean st)) (std st))) (Fin 3)) profile
            = filter (\<lambda>(col, st). case map_of features col of None \<Rightarrow> False
                 | Some v \<Rightarrow> fl_gt (fl_div (fl_abs (fl_sub v (mean st))) (std st)) (Fin 3)) profile"
    using assms by (intro filter_cong) (auto simp: fl_abs_div split: option.splits)
  have count: "fst (drift_loop features profile (0, gauge)) =
           length (filter (\<lambda>(col, st). case map_of features col of None \<Rightarrow> False
                     | Some v \<Rightarrow> fl_gt (fl_div (fl_abs (fl_sub v (mean st))) (std st)) (Fin 3))
                   profile)"
    by (simp add: drift_loop_count same)
  have ex: "drift_loop [(''temp'', Fin 35)] [(''temp'', \<lparr>mean = Fin 20, std = Fin 5\<rparr>)]
             (0, Map.empty) = (0, [''temp'' \<mapsto> Fin 3])"
    by (simp add: Let_def sample_scores del: fl_sub.simps fl_div.simps fl_abs.simps)
  have loaded: "model (load_model (Inr m) s) = Some m"
    by (simp add: load_model_def)
  have "snd (drift_loop (dict (sample_request 35 h)) (training_stats (load_model (Inr m) s))
               (0, FEATURE_MEAN_SHIFT (load_model (Inr m) s))) ''temp''
          = Some (fl_abs (fl_div (fl_sub (Fin 35) (mean \<lparr>mean = Fin 20, std = Fin 5\<rparr>))
                                 (std \<lparr>mean = Fin 20, std = Fin 5\<rparr>)))"
    by (rule drift_loop_gauge) (simp_all add: load_model_def dict_def sample_request_def)
  then have svc: "FEATURE_MEAN_SHIFT
             (snd (predict (load_model (Inr m) s) (sample_request 35 h))) ''temp''
             = Some (Fin 3)"
    using predict_gauges [OF loaded, of "sample_request 35 h"]
    by (simp add: sample_scores del: fl_sub.simps fl_div.simps fl_abs.simps)
  from count ex svc show ?thesis by blast
qed

text \<open>
  The theorem at three temperatures. At 40 the score is 4 and the feature is counted.
  At 5629499534213119 / 1125899906842624, which is 5 less 1 / 2 ^ 50, the binary64
  value next below 5, the difference from the mean rounds to 15 and the score is 3:
  not counted. At 2466424483427123 / 70368744177664, the binary64 value nearest to
  35.05, the score is the binary64 value just below 3.01: counted.
\<close>

theorem ood_exactly_when_z_exceeds_3_witness:
  "\<not> fl_gt (Fin 0) (std \<lparr>mean = Fin 20, std = Fin 5\<rparr>)
   \<and> fst (drift_loop [(''temp'', Fin 40)] [(''temp'', \<lparr>mean = Fin 20, std = Fin 5\<rparr>)]
            (0, Map.empty)) = 1
   \<and> fst (drift_loop [(''temp'', Fin (5629499534213119 / 1125899906842624))]
            [(''temp'', \<lparr>mean = Fin 20, std = Fin 5\<rparr>)] (0, Map.empty)) = 0
   \<and> fst (drift_loop [(''temp'', Fin (2466424483427123 / 70368744177664))]
            [(''temp'', \<lparr>mean = Fin 20, std = Fin 5\<rparr>)] (0, Map.empty)) = 1"
  using ood_exactly_when_z_exceeds_3
          [of "[(''temp'', \<lparr>mean = Fin 20, std = Fin 5\<rparr>)]" "[(''temp'', Fin 40)]" Map.empty]
        ood_exactly_when_z_exceeds_3
          [of "[(''temp'', \<lparr>mean = Fin 20, std = Fin 5\<rparr>)]"
              "[(''temp'', Fin (5629499534213119 / 1125899906842624))]" Map.empty]
        ood_exactly_when_z_exceeds_3
          [of "[(''temp'', \<lparr>mean = Fin 20, std = Fin 5\<rparr>)]"
              "[(''temp'', Fin (2466424483427123 / 70368744177664))]" Map.empty]
  by (simp add: sample_scores del: fl_sub.simps fl_div.simps fl_abs.simps)

text \<open>
  C10. After a request to a loaded service with a non-empty profile, the ratio gauge is
  the number of profile features that are in the request and score above 3, divided by
  the number of all profile features. A profile feature that the request does not have
  adds one to the divisor and nothing to the count.
\<close>

theorem ood_ratio_denominator_is_profile_size:
  assumes "model s = Some m" and "training_stats s = pre @ (col, st) # post"
  shows "OOD_RATIO (snd (predict s request)) =
           round64 (real (length (filter (\<lambda>(c, t). case map_of (dict request) c of None \<Rightarrow> False
                        | Some v \<Rightarrow> fl_gt (fl_abs (fl_div (fl_sub v (mean t)) (std t))) (Fin 3))
                      (training_stats s)))
                / real (length (training_stats s)))
         \<and> (map_of (dict request) col = None \<longrightarrow>
              OOD_RATIO (snd (predict s request)) =
                round64 (real (length (filter (\<lambda>(c, t). case map_of (dict request) c of None \<Rightarrow> False
                        | Some v \<Rightarrow> fl_gt (fl_abs (fl_div (fl_sub v (mean t)) (std t))) (Fin 3))
                      (pre @ post)))
                     / real (length (pre @ post) + 1)))"
proof -
  have ne: "training_stats s \<noteq> []" using assms(2) by simp
  have ratio: "OOD_RATIO (snd (predict s request)) =
           round64 (real (length (filter (\<lambda>(c, t). case map_of (dict request) c of None \<Rightarrow> False
                        | Some v \<Rightarrow> fl_gt (fl_abs (fl_div (fl_sub v (mean t)) (std t))) (Fin 3))
                      (training_stats s)))
                / real (length (training_stats s)))"
    using predict_gauges [OF assms(1), of request] ne by (simp add: drift_loop_count)
  show ?thesis
  proof (intro conjI impI)
    show "OOD_RATIO (snd (predict s request)) =
           round64 (real (length (filter (\<lambda>(c, t). case map_of (dict request) c of None \<Rightarrow> False
                        | Some v \<Rightarrow> fl_gt (fl_abs (fl_div (fl_sub v (mean t)) (std t))) (Fin 3))
                      (training_stats s)))
                / real (length (training_stats s)))"
      by (rule ratio)
  next
    assume "map_of (dict request) col = None"
    then show "OOD_RATIO (snd (predict s request)) =
                round64 (real (length (filter (\<lambda>(c, t). case map_of (dict request) c of None \<Rightarrow> False
                        | Some v \<Rightarrow> fl_gt (fl_abs (fl_div (fl_sub v (mean t)) (std t))) (Fin 3))
                      (pre @ post)))
                     / real (length (pre @ post) + 1))"
      unfolding ratio assms(2) by simp
  qed
qed

theorem ood_ratio_denominator_is_profile_size_witness:
  "OOD_RATIO (snd (predict
      \<lparr>model = Some persistence_model,
       training_stats = [(''temp'', \<lparr>mean = Fin 20, std = Fin 5\<rparr>),
                         (''wind_deg'', \<lparr>mean = Fin 180, std = Fin 90\<rparr>)],
       PREDICTION_COUNT = 0, PREDICTION_ERRORS = 0, OOD_RATIO = Fin 0,
       FEATURE_MEAN_SHIFT = Map.empty\<rparr>
      (sample_request 40 60))) = Fin (1 / 2)
   \<and> map_of (dict (sample_request 40 60)) ''wind_deg'' = None"
  using ood_ratio_denominator_is_profile_size
    [of "\<lparr>model = Some persistence_model,
       training_stats = [(''temp'', \<lparr>mean = Fin 20, std = Fin 5\<rparr>),
                         (''wind_deg'', \<lparr>mean = Fin 180, std = Fin 90\<rparr>)],
       PREDICTION_COUNT = 0, PREDICTION_ERRORS = 0, OOD_RATIO = Fin 0,
       FEATURE_MEAN_SHIFT = Map.empty\<rparr>" persistence_model
       "[(''temp'', \<lparr>mean = Fin 20, std = Fin 5\<rparr>)]" "''wind_deg''"
       "\<lparr>mean = Fin 180, std = Fin 90\<rparr>" "[]" "sample_request 40 60"]
  by (simp add: dict_def sample_request_def sample_scores round64_values
        del: fl_sub.simps fl_div.simps fl_abs.simps)



section \<open>Properties of the two pipeline scripts\<close>

subsection \<open>Frames\<close>

lemma map_of_replace:
  "map_of (map (\<lambda>(a, v). if a = k then (a, cs) else (a, v)) df) k'
     = (if k' = k then (if k \<in> fst ` set df then Some cs else None) else map_of df k')"
  by (induction df) (auto simp: rev_image_eqI)

lemma getcol_setcol:
  "getcol (setcol df k cs) k' = (if k' = k then Inr cs else getcol df k')"
proof (cases "k \<in> fst ` set df")
  case True
  then show ?thesis
    by (simp add: getcol_def setcol_def columns_def map_of_replace)
next
  case False
  then have "map_of df k = None" by (simp add: map_of_eq_None_iff)
  with False show ?thesis
    by (auto simp: getcol_def setcol_def columns_def map_add_def split: option.splits)
qed

lemma set_setcol:
  "(a, v) \<in> set (setcol df k cs) \<Longrightarrow> (a = k \<and> v = cs) \<or> (a, v) \<in> set df"
  by (auto simp: setcol_def columns_def split: if_splits)

lemma setcol_nonempty: "setcol df k cs \<noteq> []"
  by (auto simp: setcol_def columns_def)

lemma getcol_mem: "getcol df k = Inr cs \<Longrightarrow> (k, cs) \<in> set df"
  by (auto simp: getcol_def split: option.splits dest: map_of_SomeD)

lemma getcol_present: "k \<in> set (columns df) \<Longrightarrow> \<exists>cs. getcol df k = Inr cs"
  by (cases "map_of df k") (auto simp: getcol_def columns_def map_of_eq_None_iff)

lemma getcol_take_rows:
  "getcol (take_rows idx df) k =
     (case getcol df k of Inl e \<Rightarrow> Inl e | Inr cs \<Rightarrow> Inr (map (cell_at cs) idx))"
  by (simp add: getcol_def take_rows_def map_of_map split: option.splits)

lemma set_take_rows:
  "(a, v) \<in> set (take_rows idx df) \<Longrightarrow> \<exists>cs. (a, cs) \<in> set df \<and> v = map (cell_at cs) idx"
  by (auto simp: take_rows_def)

lemma nrows_all:
  "df \<noteq> [] \<Longrightarrow> \<forall>(k, cs) \<in> set df. length cs = n \<Longrightarrow> nrows df = n"
  by (cases df) (auto simp: nrows_def)

lemma to_datetime_ok:
  "\<forall>c \<in> set cs. c \<noteq> Null \<longrightarrow> parse c \<noteq> None \<Longrightarrow>
   \<exists>ts. to_datetime parse cs = Inr ts \<and> length ts = length cs
       \<and> (\<forall>i < length cs. (ts ! i = Null) = (cs ! i = Null))"
proof (induction cs)
  case Nil
  then show ?case by simp
next
  case (Cons c cs)
  then obtain ts where ts: "to_datetime parse cs = Inr ts" "length ts = length cs"
      "\<forall>i < length cs. (ts ! i = Null) = (cs ! i = Null)"
    by auto
  show ?case
  proof (cases "c = Null")
    case True
    with ts show ?thesis by (auto simp: nth_Cons split: nat.splits)
  next
    case False
    with Cons.prems obtain t where "parse c = Some t" by auto
    with False ts show ?thesis by (auto simp: nth_Cons split: nat.splits)
  qed
qed

lemma to_datetime_cells:
  "to_datetime parse cs = Inr ts \<Longrightarrow> \<forall>t \<in> set ts. t = Null \<or> (\<exists>x. t = Time x)"
  by (induction cs arbitrary: ts) (auto split: if_splits sum.splits option.splits)

lemma numeric_ok:
  "\<forall>c \<in> set cs. c = Null \<or> (\<exists>x. c = Num x) \<Longrightarrow>
   \<exists>xs. numeric cs = Inr xs \<and> length xs = length cs
       \<and> (\<forall>i < length cs. (xs ! i = None) = (cs ! i = Null))"
proof (induction cs)
  case Nil
  then show ?case by simp
next
  case (Cons c cs)
  then obtain xs where xs: "numeric cs = Inr xs" "length xs = length cs"
      "\<forall>i < length cs. (xs ! i = None) = (cs ! i = Null)"
    by auto
  from Cons.prems have "c = Null \<or> (\<exists>x. c = Num x)" by simp
  with xs show ?case by (auto simp: nth_Cons split: nat.splits)
qed

lemma length_rolling: "length (rolling w agg xs) = length xs"
  by (simp add: rolling_def)

lemma rolling_head: "i < length xs \<Longrightarrow> i + 1 < w \<Longrightarrow> rolling w agg xs ! i = Null"
  by (simp add: rolling_def)

lemma length_shift: "length (shift p cs) = length cs"
  by (auto simp: shift_def Let_def min_def)

lemma length_dt_field: "length (dt_field f cs) = length cs"
  by (simp add: dt_field_def)

lemma shift_1_nth:
  "i < length cs \<Longrightarrow> shift 1 cs ! i = (if i = 0 then Null else cs ! (i - 1))"
  by (cases i) (auto simp: shift_def Let_def min_def nth_append)

lemma shift_m1_nth:
  "i < length cs \<Longrightarrow> shift (- 1) cs ! i = (if i + 1 < length cs then cs ! (i + 1) else Null)"
  by (auto simp: shift_def Let_def min_def nth_append)

lemma those_all_Some: "None \<notin> set ys \<Longrightarrow> those ys = Some (map the ys)"
proof (induction ys)
  case Nil
  then show ?case by simp
next
  case (Cons a ys)
  then obtain y where "a = Some y" by (cases a) auto
  with Cons show ?case by simp
qed

lemma rolling_nth:
  "i < length xs \<Longrightarrow>
   rolling w agg xs ! i =
     (if i + 1 < w then Null
      else (case those (take w (drop (i + 1 - w) xs)) of
              None \<Rightarrow> Null
            | Some ys \<Rightarrow> (case agg ys of None \<Rightarrow> Null | Some y \<Rightarrow> Num y)))"
  by (simp add: rolling_def)

lemma rolling_3_nonnull:
  assumes "i < length xs" and "2 \<le> i" and "None \<notin> set xs"
    and "\<And>ys. length ys = 3 \<Longrightarrow> agg ys \<noteq> None"
  shows "rolling 3 agg xs ! i \<noteq> Null"
proof -
  let ?win = "take 3 (drop (i - 2) xs)"
  have "set ?win \<subseteq> set xs" by (meson set_drop_subset set_take_subset subset_trans)
  with assms(3) have "None \<notin> set ?win" by auto
  then have th: "those ?win = Some (map the ?win)" by (rule those_all_Some)
  have len: "length (map the ?win) = 3" using assms(1,2) by simp
  from assms(4) [OF len] obtain y where "agg (map the ?win) = Some y" by auto
  with th assms(1,2) show ?thesis by (simp add: rolling_nth)
qed

lemma agg_mean_3: "length ys = 3 \<Longrightarrow> agg_mean ys \<noteq> None"
  by (cases "ys = []") (simp_all add: agg_mean_def)

lemma agg_std_3: "length ys = 3 \<Longrightarrow> agg_std ys \<noteq> None"
  by (simp add: agg_std_def Let_def)

lemma columns_replace:
  "map fst (map (\<lambda>(a, v). if a = k then (a, cs) else (a, v)) df) = map fst df"
  by (induction df) auto

lemma columns_setcol: "set (columns (setcol df k cs)) = insert k (set (columns df))"
proof (cases "k \<in> set (columns df)")
  case True
  then have "columns (setcol df k cs) = columns df"
    unfolding setcol_def columns_def by (simp only: if_True columns_replace)
  with True show ?thesis by auto
next
  case False
  then show ?thesis by (simp add: setcol_def columns_def)
qed

lemma columns_take_rows: "columns (take_rows idx df) = columns df"
  by (simp add: take_rows_def columns_def case_prod_unfold comp_def)

lemma dt_field_nonnull:
  "i < length cs \<Longrightarrow> cs ! i = Time t \<Longrightarrow> dt_field f cs ! i \<noteq> Null"
  by (simp add: dt_field_def)

subsection \<open>The transform up to \<open>dropna\<close>\<close>

lemma transform_data_unfold:
  assumes "getcol df ''dt_txt'' = Inr c1" and "to_datetime parse c1 = Inr t1"
    and "getcol df ''collection_time'' = Inr c2" and "to_datetime parse c2 = Inr t2"
    and "getcol df ''temp'' = Inr tc" and "getcol df ''humidity'' = Inr hc"
    and "numeric (map (cell_at tc) (argsort t1)) = Inr xs"
  shows "transform_data parse argsort df =
   Inr (dropna
     (setcol (setcol (setcol (setcol (setcol (setcol (setcol (setcol
        (take_rows (argsort t1) (setcol (setcol df ''dt_txt'' t1) ''collection_time'' t2))
        ''hour'' (dt_field dt_hour (map (cell_at t1) (argsort t1))))
        ''day_of_week'' (dt_field dt_dayofweek (map (cell_at t1) (argsort t1))))
        ''month'' (dt_field dt_month (map (cell_at t1) (argsort t1))))
        ''temp_lag_1'' (shift 1 (map (cell_at tc) (argsort t1))))
        ''humidity_lag_1'' (shift 1 (map (cell_at hc) (argsort t1))))
        ''temp_rolling_mean_3'' (rolling 3 agg_mean xs))
        ''temp_rolling_std_3'' (rolling 3 agg_std xs))
        ''target_temp'' (shift (- 1) (map (cell_at tc) (argsort t1)))))"
  using assms
  by (simp add: transform_data_def and_then_def Let_def sort_values_def getcol_setcol getcol_take_rows)

lemma filter_range: "filter (\<lambda>i. a \<le> i \<and> i < b) [0..<n] = [a..<min b n]"
proof (induction n)
  case 0
  then show ?case by simp
next
  case (Suc n)
  show ?case
  proof (cases "a \<le> n \<and> n < b")
    case True
    then have "min b n = n" "min b (Suc n) = Suc n" by auto
    with Suc True show ?thesis by simp
  next
    case False
    then consider "n < a" | "b \<le> n" by linarith
    then show ?thesis
    proof cases
      case 1
      with Suc False show ?thesis by simp
    next
      case 2
      then have "min b n = b" "min b (Suc n) = b" by auto
      with Suc False show ?thesis by simp
    qed
  qed
qed

lemma dropna_rows:
  assumes "df \<noteq> []" and "\<forall>(k, cs) \<in> set df. length cs = n"
    and "\<forall>i<n. list_all (\<lambda>(k, cs). cell_at cs i \<noteq> Null) df = (a \<le> i \<and> i < b)"
    and "b \<le> n"
  shows "dropna df = take_rows [a..<b] df"
proof -
  have n: "nrows df = n" using assms(1,2) by (rule nrows_all)
  have "filter (\<lambda>i. list_all (\<lambda>(k, cs). cell_at cs i \<noteq> Null) df) [0..<n]
        = filter (\<lambda>i. a \<le> i \<and> i < b) [0..<n]"
    using assms(3) by (intro filter_cong) auto
  also have "\<dots> = [a..<b]" using assms(4) by (simp add: filter_range min_def)
  finally show ?thesis by (simp add: dropna_def n)
qed

lemma setcol_all:
  "\<forall>(a, v) \<in> set df. P v \<Longrightarrow> P cs \<Longrightarrow> \<forall>(a, v) \<in> set (setcol df k cs). P v"
  by (auto dest: set_setcol)

lemma take_rows_all:
  "\<forall>(a, v) \<in> set df. Q v \<Longrightarrow> (\<And>v. Q v \<Longrightarrow> P (map (cell_at v) idx)) \<Longrightarrow>
   \<forall>(a, v) \<in> set (take_rows idx df). P v"
  by (auto dest!: set_take_rows)

lemma no_null_nth: "Null \<notin> set v \<Longrightarrow> i < length v \<Longrightarrow> (v ! i = Null) = False"
  by (metis nth_mem)

lemma shift_1_nonnull:
  assumes "Null \<notin> set cs" and "0 < i" and "i < length cs"
  shows "shift 1 cs ! i \<noteq> Null"
proof
  assume "shift 1 cs ! i = Null"
  then have "cs ! (i - 1) = Null" using assms by (simp add: shift_1_nth)
  moreover have "i - 1 < length cs" using assms(3) by simp
  ultimately show False using assms(1) by (metis nth_mem)
qed

lemma shift_m1_nonnull:
  assumes "Null \<notin> set cs" and "i + 1 < length cs"
  shows "shift (- 1) cs ! i \<noteq> Null"
proof
  assume "shift (- 1) cs ! i = Null"
  then have "cs ! (i + 1) = Null" using assms by (simp add: shift_m1_nth)
  then show False using assms by (metis nth_mem)
qed

lemma features_before_dropna:
  assumes shape: "\<forall>(k, cs) \<in> set df. length cs = n"
    and cols: "{''dt_txt'', ''collection_time'', ''temp'', ''humidity''} \<subseteq> set (columns df)"
    and parse_ok: "\<forall>(k, cs) \<in> set df. k \<in> {''dt_txt'', ''collection_time''} \<longrightarrow>
                     (\<forall>c \<in> set cs. c \<noteq> Null \<longrightarrow> parse c \<noteq> None)"
    and num_ok: "\<forall>(k, cs) \<in> set df. k = ''temp'' \<longrightarrow> (\<forall>c \<in> set cs. c = Null \<or> (\<exists>x. c = Num x))"
    and sort_len: "\<forall>keys. length (argsort keys) = length keys"
  obtains F r g where
    "transform_data parse argsort df = Inr (dropna F)"
    "F \<noteq> []"
    "\<forall>(k, cs) \<in> set F. length cs = n"
    "(''temp_rolling_mean_3'', r) \<in> set F" "\<forall>i<n. i < 2 \<longrightarrow> r ! i = Null"
    "(''target_temp'', g) \<in> set F" "\<forall>i<n. n \<le> i + 1 \<longrightarrow> g ! i = Null"
    "(\<forall>(k, cs) \<in> set df. Null \<notin> set cs) \<and> (\<forall>keys. set (argsort keys) \<subseteq> {0..<length keys})
       \<longrightarrow> (\<forall>(k, cs) \<in> set F. \<forall>i. 2 \<le> i \<and> i + 1 < n \<longrightarrow> cs ! i \<noteq> Null)"
    "set (columns F) = set (columns df) \<union>
       {''hour'', ''day_of_week'', ''month'', ''temp_lag_1'', ''humidity_lag_1'',
        ''temp_rolling_mean_3'', ''temp_rolling_std_3'', ''target_temp''}"
proof -
  from cols obtain c1 c2 tc hc where g:
    "getcol df ''dt_txt'' = Inr c1" "getcol df ''collection_time'' = Inr c2"
    "getcol df ''temp'' = Inr tc" "getcol df ''humidity'' = Inr hc"
    using getcol_present [of _ df] by (metis insert_subset)
  then have mem: "(''dt_txt'', c1) \<in> set df" "(''collection_time'', c2) \<in> set df"
    "(''temp'', tc) \<in> set df" "(''humidity'', hc) \<in> set df"
    by (auto dest: getcol_mem)
  with shape have len: "length c1 = n" "length c2 = n" "length tc = n" "length hc = n"
    by auto
  from mem parse_ok have "\<forall>c \<in> set c1. c \<noteq> Null \<longrightarrow> parse c \<noteq> None" by auto
  from to_datetime_ok [OF this] len obtain t1 where t1:
    "to_datetime parse c1 = Inr t1" "length t1 = n" "\<forall>i<n. (t1 ! i = Null) = (c1 ! i = Null)"
    by auto
  from mem parse_ok have "\<forall>c \<in> set c2. c \<noteq> Null \<longrightarrow> parse c \<noteq> None" by auto
  from to_datetime_ok [OF this] len obtain t2 where t2:
    "to_datetime parse c2 = Inr t2" "length t2 = n" "\<forall>i<n. (t2 ! i = Null) = (c2 ! i = Null)"
    by auto
  define idx where "idx = argsort t1"
  have idx_len: "length idx = n" using sort_len t1(2) by (simp add: idx_def)
  define temp' where "temp' = map (cell_at tc) idx"
  define hum' where "hum' = map (cell_at hc) idx"
  define dt where "dt = map (cell_at t1) idx"
  have tc_num: "\<forall>c \<in> set tc. c = Null \<or> (\<exists>x. c = Num x)" using mem num_ok by auto
  have "\<forall>c \<in> set temp'. c = Null \<or> (\<exists>x. c = Num x)"
    using tc_num by (auto simp: temp'_def cell_at_def)
  from numeric_ok [OF this] idx_len obtain xs where xs:
    "numeric temp' = Inr xs" "length xs = n" "\<forall>i<n. (xs ! i = None) = (temp' ! i = Null)"
    by (auto simp: temp'_def)
  define F0 where "F0 = take_rows idx (setcol (setcol df ''dt_txt'' t1) ''collection_time'' t2)"
  define F where "F =
     setcol (setcol (setcol (setcol (setcol (setcol (setcol (setcol F0
        ''hour'' (dt_field dt_hour dt))
        ''day_of_week'' (dt_field dt_dayofweek dt))
        ''month'' (dt_field dt_month dt))
        ''temp_lag_1'' (shift 1 temp'))
        ''humidity_lag_1'' (shift 1 hum'))
        ''temp_rolling_mean_3'' (rolling 3 agg_mean xs))
        ''temp_rolling_std_3'' (rolling 3 agg_std xs))
        ''target_temp'' (shift (- 1) temp')"
  have eq: "transform_data parse argsort df = Inr (dropna F)"
    using transform_data_unfold [OF g(1) t1(1) g(2) t2(1) g(3) g(4), of argsort xs] xs(1)
    by (simp add: F_def F0_def idx_def temp'_def hum'_def dt_def)
  have ne: "F \<noteq> []" by (simp add: F_def setcol_nonempty)
  have lens0: "\<forall>(a, v) \<in> set F0. length v = n"
    unfolding F0_def
    by (rule take_rows_all [where Q = "\<lambda>v. True"]) (simp_all add: idx_len case_prod_unfold)
  have lens: "\<forall>(a, v) \<in> set F. length v = n"
    unfolding F_def
    by (intro setcol_all lens0)
      (simp_all add: length_dt_field length_shift length_rolling dt_def temp'_def hum'_def idx_len xs(2))
  have r_mem: "(''temp_rolling_mean_3'', rolling 3 agg_mean xs) \<in> set F"
    by (rule getcol_mem) (simp add: F_def getcol_setcol)
  have r_null: "\<forall>i<n. i < 2 \<longrightarrow> rolling 3 agg_mean xs ! i = Null"
    by (simp add: rolling_head xs(2))
  have g_mem: "(''target_temp'', shift (- 1) temp') \<in> set F"
    by (rule getcol_mem) (simp add: F_def getcol_setcol)
  have temp'_len: "length temp' = n" by (simp add: temp'_def idx_len)
  have g_null: "\<forall>i<n. n \<le> i + 1 \<longrightarrow> shift (- 1) temp' ! i = Null"
    by (simp add: shift_m1_nth temp'_len)
  have full: "(\<forall>(k, cs) \<in> set df. Null \<notin> set cs) \<and> (\<forall>keys. set (argsort keys) \<subseteq> {0..<length keys})
       \<longrightarrow> (\<forall>(k, cs) \<in> set F. \<forall>i. 2 \<le> i \<and> i + 1 < n \<longrightarrow> cs ! i \<noteq> Null)"
  proof (intro impI)
    assume a: "(\<forall>(k, cs) \<in> set df. Null \<notin> set cs) \<and> (\<forall>keys. set (argsort keys) \<subseteq> {0..<length keys})"
    then have "set (argsort t1) \<subseteq> {0..<length t1}" by blast
    then have idx_rng: "\<forall>j \<in> set idx. j < n" using t1(2) by (auto simp: idx_def)
    have nn: "Null \<notin> set c1" "Null \<notin> set c2" "Null \<notin> set tc" "Null \<notin> set hc"
      using a mem by auto
    have t1_nn: "Null \<notin> set t1"
      using t1(2,3) nn(1) len(1) by (metis in_set_conv_nth)
    have t2_nn: "Null \<notin> set t2"
      using t2(2,3) nn(2) len(2) by (metis in_set_conv_nth)
    have pick: "\<And>v. length v = n \<Longrightarrow> Null \<notin> set v \<Longrightarrow> Null \<notin> set (map (cell_at v) idx)"
      using idx_rng by (auto simp: cell_at_def) (metis nth_mem)
    have src: "\<forall>(a, v) \<in> set (setcol (setcol df ''dt_txt'' t1) ''collection_time'' t2).
                 length v = n \<and> Null \<notin> set v"
      using shape a t1(2) t2(2) t1_nn t2_nn by (intro setcol_all) auto
    have base: "\<forall>(a, v) \<in> set F0. length v = n \<and> Null \<notin> set v"
      unfolding F0_def
      by (rule take_rows_all [OF src]) (use pick idx_len in auto)
    then have base': "\<forall>(a, v) \<in> set F0. \<forall>i. 2 \<le> i \<and> i + 1 < n \<longrightarrow> v ! i \<noteq> Null"
      by (auto simp: no_null_nth)
    have temp'_nn: "Null \<notin> set temp'" unfolding temp'_def using pick len(3) nn(3) by blast
    have hum'_nn: "Null \<notin> set hum'" unfolding hum'_def using pick len(4) nn(4) by blast
    have hum'_len: "length hum' = n" by (simp add: hum'_def idx_len)
    have dt_len: "length dt = n" by (simp add: dt_def idx_len)
    have dt_nn: "Null \<notin> set dt" unfolding dt_def using pick t1(2) t1_nn by blast
    have "set dt \<subseteq> set t1" using idx_rng t1(2) by (auto simp: dt_def cell_at_def)
    then have dt_time: "\<forall>i<n. \<exists>t. dt ! i = Time t"
      using to_datetime_cells [OF t1(1)] dt_nn dt_len by (metis nth_mem subsetD)
    have field: "\<And>f. \<forall>i. 2 \<le> i \<and> i + 1 < n \<longrightarrow> dt_field f dt ! i \<noteq> Null"
    proof (intro allI impI)
      fix f i
      assume i: "2 \<le> i \<and> i + 1 < n"
      then have "i < n" by simp
      with dt_time obtain t where "dt ! i = Time t" by blast
      with \<open>i < n\<close> dt_len show "dt_field f dt ! i \<noteq> Null" by (simp add: dt_field_nonnull)
    qed
    have xs_nn: "None \<notin> set xs"
      using xs(2,3) temp'_nn temp'_len by (metis in_set_conv_nth nth_mem)
    have lag_t: "\<forall>i. 2 \<le> i \<and> i + 1 < n \<longrightarrow> shift 1 temp' ! i \<noteq> Null"
      using temp'_nn temp'_len by (intro allI impI shift_1_nonnull) auto
    have lag_h: "\<forall>i. 2 \<le> i \<and> i + 1 < n \<longrightarrow> shift 1 hum' ! i \<noteq> Null"
      using hum'_nn hum'_len by (intro allI impI shift_1_nonnull) auto
    have rm: "\<forall>i. 2 \<le> i \<and> i + 1 < n \<longrightarrow> rolling 3 agg_mean xs ! i \<noteq> Null"
      using xs_nn xs(2) by (intro allI impI rolling_3_nonnull agg_mean_3) auto
    have rs: "\<forall>i. 2 \<le> i \<and> i + 1 < n \<longrightarrow> rolling 3 agg_std xs ! i \<noteq> Null"
      using xs_nn xs(2) by (intro allI impI rolling_3_nonnull agg_std_3) auto
    have tg: "\<forall>i. 2 \<le> i \<and> i + 1 < n \<longrightarrow> shift (- 1) temp' ! i \<noteq> Null"
      using temp'_nn temp'_len by (intro allI impI shift_m1_nonnull) auto
    show "\<forall>(k, cs) \<in> set F. \<forall>i. 2 \<le> i \<and> i + 1 < n \<longrightarrow> cs ! i \<noteq> Null"
      unfolding F_def
      by (intro setcol_all base' field lag_t lag_h rm rs tg)
  qed
  have colsF: "set (columns F) = set (columns df) \<union>
       {''hour'', ''day_of_week'', ''month'', ''temp_lag_1'', ''humidity_lag_1'',
        ''temp_rolling_mean_3'', ''temp_rolling_std_3'', ''target_temp''}"
    using cols by (auto simp: F_def F0_def columns_setcol columns_take_rows)
  from that [OF eq ne _ r_mem r_null g_mem g_null full colsF] lens show thesis by blast
qed

lemma sample_calendar:
  "dt_hour 1704067200000000000 = 0" "dt_dayofweek 1704067200000000000 = 0" "dt_month 1704067200000000000 = 1"
  "dt_hour 1704078000000000000 = 3" "dt_dayofweek 1704078000000000000 = 0" "dt_month 1704078000000000000 = 1"
  "dt_hour 1704088800000000000 = 6" "dt_dayofweek 1704088800000000000 = 0" "dt_month 1704088800000000000 = 1"
  "dt_hour 1704099600000000000 = 9" "dt_dayofweek 1704099600000000000 = 0" "dt_month 1704099600000000000 = 1"
  by code_simp+

subsection \<open>The validator\<close>

lemma getcol_absent: "k \<notin> set (columns df) \<Longrightarrow> getcol df k = Inl (KeyError k)"
proof -
  assume "k \<notin> set (columns df)"
  then have "map_of df k = None" by (simp add: columns_def map_of_eq_None_iff)
  then show ?thesis by (simp add: getcol_def)
qed

lemma select_Inr:
  "set cs \<subseteq> set (columns df) \<Longrightarrow>
   \<exists>sub. select cs df = Inr sub
     \<and> (isnull_any sub \<longleftrightarrow> (\<exists>c \<in> set cs. \<exists>v. getcol df c = Inr v \<and> Null \<in> set v))"
proof (induction cs)
  case Nil
  then show ?case by (simp add: isnull_any_def)
next
  case (Cons c cs)
  then obtain sub where sub: "select cs df = Inr sub"
    "isnull_any sub \<longleftrightarrow> (\<exists>c \<in> set cs. \<exists>v. getcol df c = Inr v \<and> Null \<in> set v)"
    by auto
  from Cons.prems obtain v where v: "getcol df c = Inr v"
    using getcol_present [of c df] by auto
  show ?case using sub v by (auto simp: isnull_any_def)
qed

lemma select_Inl:
  "\<not> set cs \<subseteq> set (columns df) \<Longrightarrow> \<exists>e. select cs df = Inl e"
proof (induction cs)
  case Nil
  then show ?case by simp
next
  case (Cons c cs)
  show ?case
  proof (cases "c \<in> set (columns df)")
    case True
    with Cons obtain e where "select cs df = Inl e" by auto
    then show ?thesis by (auto split: sum.splits)
  next
    case False
    then show ?thesis by (simp add: getcol_absent)
  qed
qed

lemma validate_ending_clock:
  "snd (validate_data L now df) = snd (validate_data L now' df)"
  by (auto simp: validate_data_def Let_def split: sum.splits bool.splits option.splits)

lemma validate_critical_nulls:
  assumes "set critical_cols \<subseteq> set (columns df)"
    and "\<exists>c \<in> set critical_cols. \<exists>v. getcol df c = Inr v \<and> Null \<in> set v"
  shows "validate_data L now df = ([NullValuesFound (null_counts df), CriticalNulls], Exit1)"
proof -
  from select_Inr [OF assms(1)] assms(2) obtain sub where
    sub: "select critical_cols df = Inr sub" "isnull_any sub" by auto
  from assms(2) have "isnull_any df"
    by (auto simp: isnull_any_def list_ex_iff dest!: getcol_mem)
  with sub show ?thesis by (simp add: validate_data_def)
qed

lemma validate_no_critical:
  assumes "\<not> isnull_any df \<or> (set critical_cols \<subseteq> set (columns df)
             \<and> (\<forall>c \<in> set critical_cols. \<forall>v. getcol df c = Inr v \<longrightarrow> Null \<notin> set v))"
  shows "(if isnull_any df
               then (case select critical_cols df of
                       Inl e \<Rightarrow> Inl e
                     | Inr sub \<Rightarrow> Inr (isnull_any sub))
               else Inr False) = Inr False"
proof (cases "isnull_any df")
  case False
  then show ?thesis by simp
next
  case True
  with assms have c: "set critical_cols \<subseteq> set (columns df)"
    "\<forall>c \<in> set critical_cols. \<forall>v. getcol df c = Inr v \<longrightarrow> Null \<notin> set v" by auto
  from select_Inr [OF c(1)] c(2) obtain sub where
    "select critical_cols df = Inr sub" "\<not> isnull_any sub" by auto
  with True show ?thesis by simp
qed

lemma validate_missing:
  assumes "\<not> set expected_cols \<subseteq> set (columns df)"
    and "\<not> isnull_any df \<or> (set critical_cols \<subseteq> set (columns df)
             \<and> (\<forall>c \<in> set critical_cols. \<forall>v. getcol df c = Inr v \<longrightarrow> Null \<notin> set v))"
  shows "validate_data L now df =
           ((if isnull_any df then [NullValuesFound (null_counts df)] else [])
            @ [MissingExpectedColumns (filter (\<lambda>col. col \<notin> set (columns df)) expected_cols)],
            Exit1)"
proof -
  have "filter (\<lambda>col. col \<notin> set (columns df)) expected_cols \<noteq> []"
    using assms(1) by (auto simp: filter_empty_conv)
  then show ?thesis
    unfolding validate_data_def validate_no_critical [OF assms(2)] by (simp add: Let_def)
qed

lemma validate_passes:
  assumes "set expected_cols \<subseteq> set (columns df)"
    and "\<not> isnull_any df \<or> (set critical_cols \<subseteq> set (columns df)
             \<and> (\<forall>c \<in> set critical_cols. \<forall>v. getcol df c = Inr v \<longrightarrow> Null \<notin> set v))"
    and "and_then (getcol df ''collection_time'') L = Inr latest"
  shows "validate_data L now df =
           ((if isnull_any df then [NullValuesFound (null_counts df)] else [])
            @ (case latest of
                 None \<Rightarrow> []
               | Some t \<Rightarrow> if real_of_int (now - t) / 1000000000 > 86400
                           then [DataTooOld (now - t)] else [])
            @ [ValidationPassed], Returned)"
proof -
  have none: "filter (\<lambda>col. col \<notin> set (columns df)) expected_cols = []"
    using assms(1) by (auto simp: filter_empty_conv)
  have ct: "''collection_time'' \<in> set (columns df)"
    using assms(1) by (auto simp: expected_cols_def)
  show ?thesis
    unfolding validate_data_def validate_no_critical [OF assms(2)]
    using none ct assms(3) by (simp add: Let_def split: option.splits)
qed

subsection \<open>The index sort used in the examples\<close>

lemma insert_row_perm:
  "length (insert_row keys i js) = Suc (length js) \<and> set (insert_row keys i js) = insert i (set js)"
  by (induction js) auto

lemma foldr_insert_row_perm:
  "length (foldr (insert_row keys) xs []) = length xs
   \<and> set (foldr (insert_row keys) xs []) = set xs"
  by (induction xs) (simp_all add: insert_row_perm)

lemma argsort_insertion_perm:
  "length (argsort_insertion keys) = length keys
   \<and> set (argsort_insertion keys) = {0..<length keys}"
  by (simp add: argsort_insertion_def foldr_insert_row_perm)

subsection \<open>The claims about the transform\<close>

text \<open>The transform on the sample batch of four rows, step by step.\<close>

lemma sample_transform:
  "transform_data (parse_table sample_times) argsort_insertion sample_batch =
  Inr [(''dt'', [Num 1704088800]), (''dt_txt'', [Time 1704088800000000000]), (''temp'', [Num 22]), (''feels_like'', [Num 21]), (''pressure'', [Num 1012]), (''humidity'', [Num 58]), (''weather_main'', [Str ''Clear'']), (''weather_description'', [Str ''clear sky'']), (''wind_speed'', [Num 3]), (''wind_deg'', [Num 190]), (''clouds_all'', [Num 0]), (''collection_time'', [Time 1704067500000000000]), (''hour'', [Num 6]), (''day_of_week'', [Num 0]), (''month'', [Num 1]), (''temp_lag_1'', [Num 20]), (''humidity_lag_1'', [Num 62]), (''temp_rolling_mean_3'', [Num 20]), (''temp_rolling_std_3'', [Num 2]), (''target_temp'', [Num 21])]"
proof -
  let ?t1 = "[Time 1704067200000000000, Time 1704078000000000000,
              Time 1704088800000000000, Time 1704099600000000000]"
  let ?t2 = "[Time 1704067500000000000, Time 1704067500000000000,
              Time 1704067500000000000, Time 1704067500000000000]"
  have g1: "getcol sample_batch ''dt_txt'' = Inr [Str ''2024-01-01 00:00:00'', Str ''2024-01-01 03:00:00'',
                    Str ''2024-01-01 06:00:00'', Str ''2024-01-01 09:00:00'']"
    by (simp add: getcol_def sample_batch_def)
  have p1: "to_datetime (parse_table sample_times) [Str ''2024-01-01 00:00:00'', Str ''2024-01-01 03:00:00'',
                    Str ''2024-01-01 06:00:00'', Str ''2024-01-01 09:00:00''] = Inr ?t1"
    by (simp add: parse_table_def sample_times_def)
  have g2: "getcol sample_batch ''collection_time'' = Inr [Str ''2024-01-01T00:05:00'', Str ''2024-01-01T00:05:00'',
                             Str ''2024-01-01T00:05:00'', Str ''2024-01-01T00:05:00'']"
    by (simp add: getcol_def sample_batch_def)
  have p2: "to_datetime (parse_table sample_times) [Str ''2024-01-01T00:05:00'', Str ''2024-01-01T00:05:00'',
                             Str ''2024-01-01T00:05:00'', Str ''2024-01-01T00:05:00''] = Inr ?t2"
    by (simp add: parse_table_def sample_times_def)
  have g3: "getcol sample_batch ''temp'' = Inr [Num 18, Num 20, Num 22, Num 21]"
    by (simp add: getcol_def sample_batch_def)
  have g4: "getcol sample_batch ''humidity'' = Inr [Num 60, Num 62, Num 58, Num 55]"
    by (simp add: getcol_def sample_batch_def)
  have idx: "argsort_insertion ?t1 = [0, 1, 2, 3]"
    by (simp add: argsort_insertion_def upt_rec cell_at_def)
  have nm: "numeric (map (cell_at [Num 18, Num 20, Num 22, Num 21]) (argsort_insertion ?t1))
              = Inr [Some 18, Some 20, Some 22, Some 21]"
    by (simp add: idx cell_at_def)
  have rm: "rolling 3 agg_mean [Some 18, Some 20, Some 22, Some 21] = [Null, Null, Num 20, Num 21]"
    by (simp add: rolling_def agg_mean_def upt_rec)
  have rs: "rolling 3 agg_std [Some 18, Some 20, Some 22, Some 21] = [Null, Null, Num 2, Num 1]"
    by (simp add: rolling_def agg_std_def upt_rec power2_eq_square Let_def)
  have F0: "take_rows [0, 1, 2, 3] (setcol (setcol sample_batch ''dt_txt'' ?t1) ''collection_time'' ?t2)
     = [(''dt'', [Num 1704067200, Num 1704078000, Num 1704088800, Num 1704099600]),
      (''dt_txt'', ?t1),
      (''temp'', [Num 18, Num 20, Num 22, Num 21]),
      (''feels_like'', [Num 17, Num 19, Num 21, Num 20]),
      (''pressure'', [Num 1013, Num 1012, Num 1012, Num 1011]),
      (''humidity'', [Num 60, Num 62, Num 58, Num 55]),
      (''weather_main'', [Str ''Clouds'', Str ''Clouds'', Str ''Clear'', Str ''Clear'']),
      (''weather_description'', [Str ''few clouds'', Str ''few clouds'', Str ''clear sky'', Str ''clear sky'']),
      (''wind_speed'', [Num 4, Num 5, Num 3, Num 4]),
      (''wind_deg'', [Num 200, Num 210, Num 190, Num 180]),
      (''clouds_all'', [Num 20, Num 24, Num 0, Num 0]),
      (''collection_time'', ?t2)]"
    by (simp add: setcol_def columns_def sample_batch_def take_rows_def cell_at_def)
  show ?thesis
    unfolding transform_data_unfold [where argsort = argsort_insertion, OF g1 p1 g2 p2 g3 g4 nm] idx rm rs F0
    by (simp add: setcol_def columns_def dt_field_def sample_calendar cell_at_def shift_def
          dropna_def nrows_def upt_rec take_rows_def)
qed


text \<open>
  C7. The sample batch has the temperatures 18, 20, 22, 21. Its rolling mean over
  three rows is missing on the first two rows and 20 on the third, its rolling standard
  deviation, with divisor one less than the count, is 2 on the third; and the row the
  transform returns, the third, carries temperature 22, rolling mean 20 and rolling
  standard deviation 2. The numbers are exact reals; all of them are exact binary
  floats too.
\<close>

theorem rolling_window_3_in_transform:
  "getcol sample_batch ''temp'' = Inr [Num 18, Num 20, Num 22, Num 21]
   \<and> numeric [Num 18, Num 20, Num 22, Num 21] = Inr [Some 18, Some 20, Some 22, Some 21]
   \<and> rolling 3 agg_mean [Some 18, Some 20, Some 22, Some 21] = [Null, Null, Num 20, Num 21]
   \<and> rolling 3 agg_std [Some 18, Some 20, Some 22, Some 21] = [Null, Null, Num 2, Num 1]
   \<and> agg_std [18, 20, 22]
       = Some (sqrt (((18 - 20)\<^sup>2 + (20 - 20)\<^sup>2 + (22 - 20)\<^sup>2) / (3 - 1)))
   \<and> (case transform_data (parse_table sample_times) argsort_insertion sample_batch of
        Inl e \<Rightarrow> False
      | Inr out \<Rightarrow>
          getcol out ''temp'' = Inr [Num 22]
          \<and> getcol out ''temp_rolling_mean_3'' = Inr [Num 20]
          \<and> getcol out ''temp_rolling_std_3'' = Inr [Num 2])"
proof -
  have a: "getcol sample_batch ''temp'' = Inr [Num 18, Num 20, Num 22, Num 21]"
    by (simp add: getcol_def sample_batch_def)
  have b: "numeric [Num 18, Num 20, Num 22, Num 21] = Inr [Some 18, Some 20, Some 22, Some 21]"
    by simp
  have c: "rolling 3 agg_mean [Some 18, Some 20, Some 22, Some 21] = [Null, Null, Num 20, Num 21]"
    by (simp add: rolling_def agg_mean_def upt_rec)
  have d: "rolling 3 agg_std [Some 18, Some 20, Some 22, Some 21] = [Null, Null, Num 2, Num 1]"
    by (simp add: rolling_def agg_std_def upt_rec power2_eq_square Let_def)
  have e: "agg_std [18, 20, 22]
       = Some (sqrt (((18 - 20)\<^sup>2 + (20 - 20)\<^sup>2 + (22 - 20)\<^sup>2) / (3 - 1)))"
    by (simp add: agg_std_def power2_eq_square Let_def)
  have f: "case transform_data (parse_table sample_times) argsort_insertion sample_batch of
        Inl e \<Rightarrow> False
      | Inr out \<Rightarrow>
          getcol out ''temp'' = Inr [Num 22]
          \<and> getcol out ''temp_rolling_mean_3'' = Inr [Num 20]
          \<and> getcol out ''temp_rolling_std_3'' = Inr [Num 2]"
    unfolding sample_transform by (simp add: getcol_def)
  from a b c d e f show ?thesis by blast
qed

text \<open>
  C1, amended. For a batch of \<open>n \<ge> 3\<close> rows without a missing cell, whose timestamp
  columns parse and whose temperatures are numbers, and for any index sort that returns
  a permutation of the rows, the transform returns a frame of exactly \<open>n - 3\<close> rows
  without a missing cell: the rolling window leaves the first two rows incomplete, the
  target the last one. The frame has the columns of the batch and the eight new ones.
\<close>

theorem transform_data_row_count:
  assumes shape: "\<forall>(k, cs) \<in> set df. length cs = n \<and> Null \<notin> set cs"
    and cols: "{''dt_txt'', ''collection_time'', ''temp'', ''humidity''} \<subseteq> set (columns df)"
    and parse_ok: "\<forall>(k, cs) \<in> set df. k \<in> {''dt_txt'', ''collection_time''} \<longrightarrow>
                     (\<forall>c \<in> set cs. parse c \<noteq> None)"
    and num_ok: "\<forall>(k, cs) \<in> set df. k = ''temp'' \<longrightarrow> (\<forall>c \<in> set cs. \<exists>x. c = Num x)"
    and sort_ok: "\<forall>keys. length (argsort keys) = length keys
                    \<and> set (argsort keys) = {0..<length keys}"
    and n3: "3 \<le> n"
  shows "\<exists>out. transform_data parse argsort df = Inr out
           \<and> (\<forall>(k, cs) \<in> set out. length cs = n - 3 \<and> Null \<notin> set cs)
           \<and> set (columns out) = set (columns df) \<union>
               {''hour'', ''day_of_week'', ''month'', ''temp_lag_1'', ''humidity_lag_1'',
                ''temp_rolling_mean_3'', ''temp_rolling_std_3'', ''target_temp''}"
proof -
  have shape': "\<forall>(k, cs) \<in> set df. length cs = n" using shape by auto
  have parse': "\<forall>(k, cs) \<in> set df. k \<in> {''dt_txt'', ''collection_time''} \<longrightarrow>
                     (\<forall>c \<in> set cs. c \<noteq> Null \<longrightarrow> parse c \<noteq> None)"
    using parse_ok by fastforce
  have num': "\<forall>(k, cs) \<in> set df. k = ''temp'' \<longrightarrow> (\<forall>c \<in> set cs. c = Null \<or> (\<exists>x. c = Num x))"
    using num_ok by fastforce
  have len': "\<forall>keys. length (argsort keys) = length keys" using sort_ok by simp
  have strong: "(\<forall>(k, cs) \<in> set df. Null \<notin> set cs)
                 \<and> (\<forall>keys. set (argsort keys) \<subseteq> {0..<length keys})"
    using shape sort_ok by auto
  from features_before_dropna [OF shape' cols parse' num' len']
  obtain F r g where F:
    "transform_data parse argsort df = Inr (dropna F)"
    "F \<noteq> []"
    "\<forall>(k, cs) \<in> set F. length cs = n"
    "(''temp_rolling_mean_3'', r) \<in> set F" "\<forall>i<n. i < 2 \<longrightarrow> r ! i = Null"
    "(''target_temp'', g) \<in> set F" "\<forall>i<n. n \<le> i + 1 \<longrightarrow> g ! i = Null"
    "(\<forall>(k, cs) \<in> set df. Null \<notin> set cs) \<and> (\<forall>keys. set (argsort keys) \<subseteq> {0..<length keys})
       \<longrightarrow> (\<forall>(k, cs) \<in> set F. \<forall>i. 2 \<le> i \<and> i + 1 < n \<longrightarrow> cs ! i \<noteq> Null)"
    "set (columns F) = set (columns df) \<union>
       {''hour'', ''day_of_week'', ''month'', ''temp_lag_1'', ''humidity_lag_1'',
        ''temp_rolling_mean_3'', ''temp_rolling_std_3'', ''target_temp''}"
    by blast
  from F(8) strong have full: "\<forall>(k, cs) \<in> set F. \<forall>i. 2 \<le> i \<and> i + 1 < n \<longrightarrow> cs ! i \<noteq> Null"
    by blast
  have rows: "\<forall>i<n. list_all (\<lambda>(k, cs). cell_at cs i \<noteq> Null) F = (2 \<le> i \<and> i < n - 1)"
  proof (intro allI impI)
    fix i assume i: "i < n"
    show "list_all (\<lambda>(k, cs). cell_at cs i \<noteq> Null) F = (2 \<le> i \<and> i < n - 1)"
    proof (cases "2 \<le> i \<and> i < n - 1")
      case True
      then have "\<forall>(k, cs) \<in> set F. cell_at cs i \<noteq> Null"
        using full F(3) i by (auto simp: cell_at_def)
      with True show ?thesis by (simp add: list_all_iff)
    next
      case False
      then consider "i < 2" | "n \<le> i + 1" by linarith
      then have "\<exists>(k, cs) \<in> set F. cell_at cs i = Null"
      proof cases
        case 1
        with F(4,5) i F(3) show ?thesis by (force simp: cell_at_def)
      next
        case 2
        with F(6,7) i F(3) show ?thesis by (force simp: cell_at_def)
      qed
      with False show ?thesis by (auto simp: list_all_iff)
    qed
  qed
  have drop: "dropna F = take_rows [2..<n - 1] F"
    by (rule dropna_rows [OF F(2,3) rows]) simp
  have out: "\<forall>(k, cs) \<in> set (take_rows [2..<n - 1] F). length cs = n - 3 \<and> Null \<notin> set cs"
  proof (rule take_rows_all [where Q = "\<lambda>v. length v = n \<and> (\<forall>i. 2 \<le> i \<and> i + 1 < n \<longrightarrow> v ! i \<noteq> Null)"])
    show "\<forall>(a, v) \<in> set F. length v = n \<and> (\<forall>i. 2 \<le> i \<and> i + 1 < n \<longrightarrow> v ! i \<noteq> Null)"
      using F(3) full by auto
  next
    fix v assume v: "length v = n \<and> (\<forall>i. 2 \<le> i \<and> i + 1 < n \<longrightarrow> v ! i \<noteq> Null)"
    have "cell_at v i \<noteq> Null" if "i \<in> set [2..<n - 1]" for i
    proof -
      from that have i: "2 \<le> i \<and> i + 1 < n" by auto
      with v have "v ! i \<noteq> Null" by blast
      with i v show ?thesis by (simp add: cell_at_def)
    qed
    then have "Null \<notin> set (map (cell_at v) [2..<n - 1])" by (metis (no_types, lifting) imageE list.set_map)
    moreover have "length (map (cell_at v) [2..<n - 1]) = n - 3" by simp
    ultimately show "length (map (cell_at v) [2..<n - 1]) = n - 3 \<and> Null \<notin> set (map (cell_at v) [2..<n - 1])"
      by blast
  qed
  have "set (columns (take_rows [2..<n - 1] F)) = set (columns F)"
    by (simp add: columns_take_rows)
  with F(1,9) drop out show ?thesis by simp
qed

text \<open>The theorem on the sample batch of four rows: one row comes out.\<close>

theorem transform_data_row_count_witness:
  "(case transform_data (parse_table sample_times) argsort_insertion sample_batch of
      Inl e \<Rightarrow> False
    | Inr out \<Rightarrow> list_all (\<lambda>(k, cs). length cs = 1 \<and> Null \<notin> set cs) out)
   \<and> nrows sample_batch = 4"
proof -
  have 1: "\<forall>(k, cs) \<in> set sample_batch. length cs = 4 \<and> Null \<notin> set cs"
    by (simp add: sample_batch_def)
  have 2: "{''dt_txt'', ''collection_time'', ''temp'', ''humidity''} \<subseteq> set (columns sample_batch)"
    by (simp add: sample_batch_def columns_def)
  have 3: "\<forall>(k, cs) \<in> set sample_batch. k \<in> {''dt_txt'', ''collection_time''} \<longrightarrow>
                     (\<forall>c \<in> set cs. parse_table sample_times c \<noteq> None)"
    by (simp add: sample_batch_def parse_table_def sample_times_def)
  have 4: "\<forall>(k, cs) \<in> set sample_batch. k = ''temp'' \<longrightarrow> (\<forall>c \<in> set cs. \<exists>x. c = Num x)"
    by (simp add: sample_batch_def)
  have 5: "\<forall>keys. length (argsort_insertion keys) = length keys
                    \<and> set (argsort_insertion keys) = {0..<length keys}"
    by (simp add: argsort_insertion_perm)
  have 6: "(3::nat) \<le> 4" by simp
  from transform_data_row_count [OF 1 2 3 4 5 6]
  obtain out where out: "transform_data (parse_table sample_times) argsort_insertion sample_batch = Inr out"
    "\<forall>(k, cs) \<in> set out. length cs = 4 - 3 \<and> Null \<notin> set cs"
    by blast
  from out(2) have "list_all (\<lambda>(k, cs). length cs = 1 \<and> Null \<notin> set cs) out"
    by (simp add: list_all_iff)
  moreover have "nrows sample_batch = 4" by (simp add: nrows_def sample_batch_def)
  ultimately show ?thesis by (simp add: out(1))
qed

text \<open>
  C1, as stated, fails: the sample batch has four rows without a missing cell, and the
  transform returns one row, the third, not two. (Its rolling mean and standard
  deviation are those of 18, 20, 22.)
\<close>

theorem transform_data_four_rows_counterexample:
  "transform_data (parse_table sample_times) argsort_insertion sample_batch =
  Inr [(''dt'', [Num 1704088800]), (''dt_txt'', [Time 1704088800000000000]), (''temp'', [Num 22]), (''feels_like'', [Num 21]), (''pressure'', [Num 1012]), (''humidity'', [Num 58]), (''weather_main'', [Str ''Clear'']), (''weather_description'', [Str ''clear sky'']), (''wind_speed'', [Num 3]), (''wind_deg'', [Num 190]), (''clouds_all'', [Num 0]), (''collection_time'', [Time 1704067500000000000]), (''hour'', [Num 6]), (''day_of_week'', [Num 0]), (''month'', [Num 1]), (''temp_lag_1'', [Num 20]), (''humidity_lag_1'', [Num 62]), (''temp_rolling_mean_3'', [Num 20]), (''temp_rolling_std_3'', [Num 2]), (''target_temp'', [Num 21])]"
  by (rule sample_transform)

text \<open>
  C5. For a batch of fewer than three rows (missing cells allowed) whose timestamp
  columns parse and whose temperatures are numbers or missing, and for any index sort
  that returns as many rows as it gets, the transform raises nothing and returns a frame
  without rows: the rolling mean is missing on every row.
\<close>


theorem transform_data_small_batch_empty:
  assumes shape: "\<forall>(k, cs) \<in> set df. length cs = n"
    and small: "n < 3"
    and cols: "{''dt_txt'', ''collection_time'', ''temp'', ''humidity''} \<subseteq> set (columns df)"
    and parse_ok: "\<forall>(k, cs) \<in> set df. k \<in> {''dt_txt'', ''collection_time''} \<longrightarrow>
                     (\<forall>c \<in> set cs. c \<noteq> Null \<longrightarrow> parse c \<noteq> None)"
    and num_ok: "\<forall>(k, cs) \<in> set df. k = ''temp'' \<longrightarrow>
                     (\<forall>c \<in> set cs. c = Null \<or> (\<exists>x. c = Num x))"
    and sort_len: "\<forall>keys. length (argsort keys) = length keys"
  shows "\<exists>out. transform_data parse argsort df = Inr out
           \<and> (\<forall>(k, cs) \<in> set out. cs = []) \<and> nrows out = 0"
proof -
  from features_before_dropna [OF shape cols parse_ok num_ok sort_len]
  obtain F r g where F:
    "transform_data parse argsort df = Inr (dropna F)"
    "F \<noteq> []"
    "\<forall>(k, cs) \<in> set F. length cs = n"
    "(''temp_rolling_mean_3'', r) \<in> set F" "\<forall>i<n. i < 2 \<longrightarrow> r ! i = Null"
    "(''target_temp'', g) \<in> set F" "\<forall>i<n. n \<le> i + 1 \<longrightarrow> g ! i = Null"
    "(\<forall>(k, cs) \<in> set df. Null \<notin> set cs) \<and> (\<forall>keys. set (argsort keys) \<subseteq> {0..<length keys})
       \<longrightarrow> (\<forall>(k, cs) \<in> set F. \<forall>i. 2 \<le> i \<and> i + 1 < n \<longrightarrow> cs ! i \<noteq> Null)"
    "set (columns F) = set (columns df) \<union>
       {''hour'', ''day_of_week'', ''month'', ''temp_lag_1'', ''humidity_lag_1'',
        ''temp_rolling_mean_3'', ''temp_rolling_std_3'', ''target_temp''}"
    by blast
  have rows: "\<forall>i<n. list_all (\<lambda>(k, cs). cell_at cs i \<noteq> Null) F = (0 \<le> i \<and> i < 0)"
  proof (intro allI impI)
    fix i assume i: "i < n"
    with small have "i < 2" by simp
    with F(5) i have "r ! i = Null" by blast
    moreover have "length r = n" using F(3,4) by blast
    ultimately have "cell_at r i = Null" using i by (simp add: cell_at_def)
    with F(4) have "\<not> list_all (\<lambda>(k, cs). cell_at cs i \<noteq> Null) F"
      unfolding list_all_iff by blast
    then show "list_all (\<lambda>(k, cs). cell_at cs i \<noteq> Null) F = (0 \<le> i \<and> i < 0)"
      by simp
  qed
  have drop: "dropna F = take_rows [0..<0] F"
    using dropna_rows [where a = 0 and b = 0 and n = n and df = F] F(2,3) rows by simp
  have empty: "\<forall>(k, cs) \<in> set (take_rows [] F). cs = []"
    by (auto simp: take_rows_def)
  have nr: "nrows (take_rows [] F) = 0"
    by (cases F) (auto simp: take_rows_def nrows_def)
  have "transform_data parse argsort df = Inr (take_rows [] F)"
    using F(1) drop by simp
  with empty nr show ?thesis by blast
qed

text \<open>The theorem on the first two rows of the sample batch.\<close>


theorem transform_data_small_batch_empty_witness:
  "(case transform_data (parse_table sample_times) argsort_insertion
           (take_rows [0, 1] sample_batch) of
      Inl e \<Rightarrow> False
    | Inr out \<Rightarrow> list_all (\<lambda>(k, cs). cs = []) out)
   \<and> nrows (take_rows [0, 1] sample_batch) = 2"
proof -
  have tb: "take_rows [0, 1] sample_batch =
     [(''dt'', [Num 1704067200, Num 1704078000]),
      (''dt_txt'', [Str ''2024-01-01 00:00:00'', Str ''2024-01-01 03:00:00'']),
      (''temp'', [Num 18, Num 20]),
      (''feels_like'', [Num 17, Num 19]),
      (''pressure'', [Num 1013, Num 1012]),
      (''humidity'', [Num 60, Num 62]),
      (''weather_main'', [Str ''Clouds'', Str ''Clouds'']),
      (''weather_description'', [Str ''few clouds'', Str ''few clouds'']),
      (''wind_speed'', [Num 4, Num 5]),
      (''wind_deg'', [Num 200, Num 210]),
      (''clouds_all'', [Num 20, Num 24]),
      (''collection_time'', [Str ''2024-01-01T00:05:00'', Str ''2024-01-01T00:05:00''])]"
    by (simp add: take_rows_def sample_batch_def cell_at_def)
  have 1: "\<forall>(k, cs) \<in> set (take_rows [0, 1] sample_batch). length cs = 2"
    unfolding tb by simp
  have 2: "(2::nat) < 3" by simp
  have 3: "{''dt_txt'', ''collection_time'', ''temp'', ''humidity''}
             \<subseteq> set (columns (take_rows [0, 1] sample_batch))"
    unfolding tb by (simp add: columns_def)
  have 4: "\<forall>(k, cs) \<in> set (take_rows [0, 1] sample_batch).
             k \<in> {''dt_txt'', ''collection_time''} \<longrightarrow>
               (\<forall>c \<in> set cs. c \<noteq> Null \<longrightarrow> parse_table sample_times c \<noteq> None)"
    unfolding tb by (simp add: parse_table_def sample_times_def)
  have 5: "\<forall>(k, cs) \<in> set (take_rows [0, 1] sample_batch). k = ''temp'' \<longrightarrow>
                     (\<forall>c \<in> set cs. c = Null \<or> (\<exists>x. c = Num x))"
    unfolding tb by simp
  have 6: "\<forall>keys. length (argsort_insertion keys) = length keys"
    by (simp add: argsort_insertion_perm)
  from transform_data_small_batch_empty [OF 1 2 3 4 5 6]
  obtain out where out:
    "transform_data (parse_table sample_times) argsort_insertion (take_rows [0, 1] sample_batch)
       = Inr out"
    "\<forall>(k, cs) \<in> set out. cs = []"
    by blast
  from out(2) have a: "list_all (\<lambda>(k, cs). cs = []) out" by (simp add: list_all_iff)
  have b: "nrows (take_rows [0, 1] sample_batch) = 2" unfolding tb by (simp add: nrows_def)
  show ?thesis
  proof (rule conjI)
    show "case transform_data (parse_table sample_times) argsort_insertion
                 (take_rows [0, 1] sample_batch) of
            Inl e \<Rightarrow> False
          | Inr out \<Rightarrow> list_all (\<lambda>(k, cs). cs = []) out"
      unfolding out(1) sum.case by (rule a)
  next
    show "nrows (take_rows [0, 1] sample_batch) = 2" by (rule b)
  qed
qed

subsection \<open>The claims about the validator\<close>

lemma validate_unreadable:
  assumes "set expected_cols \<subseteq> set (columns df)"
    and "\<not> isnull_any df \<or> (set critical_cols \<subseteq> set (columns df)
             \<and> (\<forall>c \<in> set critical_cols. \<forall>v. getcol df c = Inr v \<longrightarrow> Null \<notin> set v))"
    and "and_then (getcol df ''collection_time'') L = Inl e"
  shows "validate_data L now df =
           ((if isnull_any df then [NullValuesFound (null_counts df)] else [])
            @ [ValidationFailedWithError e], Exit1)"
proof -
  have none: "filter (\<lambda>col. col \<notin> set (columns df)) expected_cols = []"
    using assms(1) by (auto simp: filter_empty_conv)
  have ct: "''collection_time'' \<in> set (columns df)"
    using assms(1) by (auto simp: expected_cols_def)
  show ?thesis
    unfolding validate_data_def validate_no_critical [OF assms(2)]
    using none ct assms(3) by (simp add: Let_def)
qed

text \<open>
  C6, as stated, fails: a batch that lacks the required column \<open>dt\<close> and has a missing
  \<open>wind_speed\<close> ends on the critical-null message, not on the missing-column one. The
  null check runs first.
\<close>


theorem validate_data_precedence_counterexample:
  "validate_data (latest_time_of (parse_table sample_times)) 1704070800000000000
     [(''temp'', [Num 18]), (''humidity'', [Num 60]), (''pressure'', [Num 1013]),
      (''wind_speed'', [Null]), (''collection_time'', [Str ''2024-01-01T00:05:00''])]
   = ([NullValuesFound [(''wind_speed'', 1)], CriticalNulls], Exit1)"
  by (simp add: validate_data_def isnull_any_def null_counts_def critical_cols_def getcol_def)


text \<open>
  C6, amended. The null check runs before the schema check. A batch with the four
  critical columns and a missing cell in one of them fails on the critical-null message.
  A batch that lacks an expected column fails on the missing-column message when the
  null check lets it through: it has no missing cell at all, or it has the four critical
  columns and no missing cell in them. A batch with all expected columns whose missing
  cells are all outside the critical columns passes, with the null warning (and the
  staleness warning when it is old), when its latest collection time can be read; when
  reading it raises, as it can when the missing cell is in \<open>collection_time\<close> itself,
  the run fails on the generic message.
\<close>

theorem validate_data_outcomes:
  "(set critical_cols \<subseteq> set (columns df)
      \<and> (\<exists>c \<in> set critical_cols. \<exists>v. getcol df c = Inr v \<and> Null \<in> set v) \<longrightarrow>
    validate_data L now df = ([NullValuesFound (null_counts df), CriticalNulls], Exit1))
   \<and> (\<not> set expected_cols \<subseteq> set (columns df)
      \<and> (\<not> isnull_any df \<or> (set critical_cols \<subseteq> set (columns df)
             \<and> (\<forall>c \<in> set critical_cols. \<forall>v. getcol df c = Inr v \<longrightarrow> Null \<notin> set v))) \<longrightarrow>
    validate_data L now df =
      ((if isnull_any df then [NullValuesFound (null_counts df)] else [])
       @ [MissingExpectedColumns (filter (\<lambda>col. col \<notin> set (columns df)) expected_cols)],
       Exit1))
   \<and> (set expected_cols \<subseteq> set (columns df) \<and> isnull_any df
      \<and> (\<forall>c \<in> set critical_cols. \<forall>v. getcol df c = Inr v \<longrightarrow> Null \<notin> set v) \<longrightarrow>
    validate_data L now df =
      (case and_then (getcol df ''collection_time'') L of
         Inl e \<Rightarrow> ([NullValuesFound (null_counts df), ValidationFailedWithError e], Exit1)
       | Inr latest \<Rightarrow>
           ([NullValuesFound (null_counts df)]
            @ (case latest of
                 None \<Rightarrow> []
               | Some t \<Rightarrow> if real_of_int (now - t) / 1000000000 > 86400
                           then [DataTooOld (now - t)] else [])
            @ [ValidationPassed], Returned)))"
proof (intro conjI impI)
  assume "set critical_cols \<subseteq> set (columns df)
      \<and> (\<exists>c \<in> set critical_cols. \<exists>v. getcol df c = Inr v \<and> Null \<in> set v)"
  then show "validate_data L now df = ([NullValuesFound (null_counts df), CriticalNulls], Exit1)"
    using validate_critical_nulls by blast
next
  assume a: "\<not> set expected_cols \<subseteq> set (columns df)
      \<and> (\<not> isnull_any df \<or> (set critical_cols \<subseteq> set (columns df)
             \<and> (\<forall>c \<in> set critical_cols. \<forall>v. getcol df c = Inr v \<longrightarrow> Null \<notin> set v)))"
  then have 1: "\<not> set expected_cols \<subseteq> set (columns df)"
    and 2: "\<not> isnull_any df \<or> (set critical_cols \<subseteq> set (columns df)
             \<and> (\<forall>c \<in> set critical_cols. \<forall>v. getcol df c = Inr v \<longrightarrow> Null \<notin> set v))"
    by blast+
  show "validate_data L now df =
      ((if isnull_any df then [NullValuesFound (null_counts df)] else [])
       @ [MissingExpectedColumns (filter (\<lambda>col. col \<notin> set (columns df)) expected_cols)],
       Exit1)"
    by (rule validate_missing [OF 1 2])
next
  assume a: "set expected_cols \<subseteq> set (columns df) \<and> isnull_any df
      \<and> (\<forall>c \<in> set critical_cols. \<forall>v. getcol df c = Inr v \<longrightarrow> Null \<notin> set v)"
  then have 1: "set expected_cols \<subseteq> set (columns df)" and n: "isnull_any df"
    and 4: "\<forall>c \<in> set critical_cols. \<forall>v. getcol df c = Inr v \<longrightarrow> Null \<notin> set v"
    by blast+
  have "set critical_cols \<subseteq> set expected_cols"
    by (simp add: critical_cols_def expected_cols_def)
  with 1 have "set critical_cols \<subseteq> set (columns df)" by blast
  with 4 have 2: "\<not> isnull_any df \<or> (set critical_cols \<subseteq> set (columns df)
             \<and> (\<forall>c \<in> set critical_cols. \<forall>v. getcol df c = Inr v \<longrightarrow> Null \<notin> set v))"
    by blast
  show "validate_data L now df =
      (case and_then (getcol df ''collection_time'') L of
         Inl e \<Rightarrow> ([NullValuesFound (null_counts df), ValidationFailedWithError e], Exit1)
       | Inr latest \<Rightarrow>
           ([NullValuesFound (null_counts df)]
            @ (case latest of
                 None \<Rightarrow> []
               | Some t \<Rightarrow> if real_of_int (now - t) / 1000000000 > 86400
                           then [DataTooOld (now - t)] else [])
            @ [ValidationPassed], Returned))"
  proof (cases "and_then (getcol df ''collection_time'') L")
    case (Inl e)
    with validate_unreadable [OF 1 2 Inl, of now] n show ?thesis by simp
  next
    case (Inr latest)
    with validate_passes [OF 1 2 Inr, of now] n show ?thesis by simp
  qed
qed

text \<open>
  One batch for each case: a missing \<open>wind_speed\<close>; no \<open>pressure\<close> column; a missing
  \<open>wind_deg\<close>; and two rows with a missing \<open>collection_time\<close>, whose maximum raises.
\<close>

theorem validate_data_outcomes_witness:
  "validate_data (latest_time_of (parse_table sample_times)) 1704070800000000000
     [(''dt'', [Num 1704067200]), (''temp'', [Num 18]), (''humidity'', [Num 60]),
      (''pressure'', [Num 1013]), (''wind_speed'', [Null]),
      (''collection_time'', [Str ''2024-01-01T00:05:00''])]
   = ([NullValuesFound [(''wind_speed'', 1)], CriticalNulls], Exit1)
   \<and> validate_data (latest_time_of (parse_table sample_times)) 1704070800000000000
     [(''dt'', [Num 1704067200]), (''temp'', [Num 18]), (''humidity'', [Num 60]),
      (''wind_speed'', [Num 4]), (''collection_time'', [Str ''2024-01-01T00:05:00''])]
   = ([MissingExpectedColumns [''pressure'']], Exit1)
   \<and> validate_data (latest_time_of (parse_table sample_times)) 1704070800000000000
     [(''dt'', [Num 1704067200]), (''temp'', [Num 18]), (''humidity'', [Num 60]),
      (''pressure'', [Num 1013]), (''wind_speed'', [Num 4]), (''wind_deg'', [Null]),
      (''collection_time'', [Str ''2024-01-01T00:05:00''])]
   = ([NullValuesFound [(''wind_deg'', 1)], ValidationPassed], Returned)
   \<and> validate_data (latest_time_of (parse_table sample_times)) 1704070800000000000
     [(''dt'', [Num 1704067200, Num 1704078000]), (''temp'', [Num 18, Num 20]),
      (''humidity'', [Num 60, Num 62]), (''pressure'', [Num 1013, Num 1012]),
      (''wind_speed'', [Num 4, Num 5]),
      (''collection_time'', [Str ''2024-01-01T00:05:00'', Null])]
   = ([NullValuesFound [(''collection_time'', 1)],
       ValidationFailedWithError
         (TypeError ''not supported between instances of str and float'')], Exit1)"
proof -
  let ?L = "latest_time_of (parse_table sample_times)"
  let ?d1 = "[(''dt'', [Num 1704067200]), (''temp'', [Num 18]), (''humidity'', [Num 60]),
      (''pressure'', [Num 1013]), (''wind_speed'', [Null]),
      (''collection_time'', [Str ''2024-01-01T00:05:00''])]"
  let ?d2 = "[(''dt'', [Num 1704067200]), (''temp'', [Num 18]), (''humidity'', [Num 60]),
      (''wind_speed'', [Num 4]), (''collection_time'', [Str ''2024-01-01T00:05:00''])]"
  let ?d3 = "[(''dt'', [Num 1704067200]), (''temp'', [Num 18]), (''humidity'', [Num 60]),
      (''pressure'', [Num 1013]), (''wind_speed'', [Num 4]), (''wind_deg'', [Null]),
      (''collection_time'', [Str ''2024-01-01T00:05:00''])]"
  let ?d4 = "[(''dt'', [Num 1704067200, Num 1704078000]), (''temp'', [Num 18, Num 20]),
      (''humidity'', [Num 60, Num 62]), (''pressure'', [Num 1013, Num 1012]),
      (''wind_speed'', [Num 4, Num 5]),
      (''collection_time'', [Str ''2024-01-01T00:05:00'', Null])]"
  have a: "validate_data ?L 1704070800000000000 ?d1
             = ([NullValuesFound [(''wind_speed'', 1)], CriticalNulls], Exit1)"
    using validate_data_outcomes [of ?d1 ?L 1704070800000000000]
    by (simp add: columns_def critical_cols_def getcol_def null_counts_def)
  have b: "validate_data ?L 1704070800000000000 ?d2
             = ([MissingExpectedColumns [''pressure'']], Exit1)"
    using validate_data_outcomes [of ?d2 ?L 1704070800000000000]
    by (simp add: columns_def expected_cols_def isnull_any_def)
  have c: "validate_data ?L 1704070800000000000 ?d3
             = ([NullValuesFound [(''wind_deg'', 1)], ValidationPassed], Returned)"
    using validate_data_outcomes [of ?d3 ?L 1704070800000000000]
    by (simp add: columns_def expected_cols_def critical_cols_def isnull_any_def getcol_def
          null_counts_def and_then_def latest_time_of_def is_float_cell_def is_text_cell_def
          read_time_def parse_table_def sample_times_def)
  have d: "validate_data ?L 1704070800000000000 ?d4
             = ([NullValuesFound [(''collection_time'', 1)],
                 ValidationFailedWithError
                   (TypeError ''not supported between instances of str and float'')], Exit1)"
    using validate_data_outcomes [of ?d4 ?L 1704070800000000000]
    by (simp add: columns_def expected_cols_def critical_cols_def isnull_any_def getcol_def
          null_counts_def and_then_def latest_time_of_def is_float_cell_def is_text_cell_def)
  from a b c d show ?thesis by blast
qed

text \<open>
  C8. A batch whose latest collection time is more than 24 hours old, and that passes
  when the clock stands at that collection time, passes at the later clock too: the
  only addition to what is printed is the staleness warning. Whether the run ends with
  a failure never depends on the clock.
\<close>

theorem validate_data_stale_is_warning:
  assumes latest: "and_then (getcol df ''collection_time'') L = Inr (Some t)"
    and stale: "real_of_int (now - t) / 1000000000 > 86400"
    and fresh: "snd (validate_data L t df) = Returned"
  shows "validate_data L now df =
           ((if isnull_any df then [NullValuesFound (null_counts df)] else [])
            @ [DataTooOld (now - t), ValidationPassed], Returned)
         \<and> (\<forall>clock. snd (validate_data L clock df) = Returned)"
proof -
  have all: "\<forall>clock. snd (validate_data L clock df) = Returned"
    using fresh validate_ending_clock [of L _ df t] by simp
  have nocrit: "(if isnull_any df
               then (case select critical_cols df of
                       Inl e \<Rightarrow> Inl e
                     | Inr sub \<Rightarrow> Inr (isnull_any sub))
               else Inr False) = Inr False"
    using fresh
    by (auto simp: validate_data_def Let_def split: sum.splits bool.splits if_splits)
  have nomiss: "filter (\<lambda>col. col \<notin> set (columns df)) expected_cols = []"
    using fresh unfolding validate_data_def nocrit
    by (auto simp: Let_def split: if_splits)
  then have "\<forall>col \<in> set expected_cols. col \<in> set (columns df)"
    by (simp only: filter_empty_conv) blast
  then have ct: "''collection_time'' \<in> set (columns df)"
    by (simp add: expected_cols_def)
  have "validate_data L now df =
           ((if isnull_any df then [NullValuesFound (null_counts df)] else [])
            @ [DataTooOld (now - t), ValidationPassed], Returned)"
    unfolding validate_data_def nocrit
    using nomiss ct latest stale by (simp add: Let_def)
  with all show ?thesis by blast
qed

text \<open>The sample batch, read two days after it was collected.\<close>

theorem validate_data_stale_is_warning_witness:
  "validate_data (latest_time_of (parse_table sample_times)) 1704240300000000000 sample_batch
     = ([DataTooOld 172800000000000, ValidationPassed], Returned)"
proof -
  let ?L = "latest_time_of (parse_table sample_times)"
  have n: "\<not> isnull_any sample_batch"
    by (simp add: isnull_any_def sample_batch_def)
  have l: "and_then (getcol sample_batch ''collection_time'') ?L = Inr (Some 1704067500000000000)"
    by (simp add: and_then_def getcol_def sample_batch_def latest_time_of_def is_float_cell_def
          is_text_cell_def read_time_def parse_table_def sample_times_def)
  have s: "real_of_int (1704240300000000000 - 1704067500000000000) / 1000000000 > 86400"
    by simp
  have c: "set (columns sample_batch) =
     {''dt'', ''dt_txt'', ''temp'', ''feels_like'', ''pressure'', ''humidity'', ''weather_main'',
      ''weather_description'', ''wind_speed'', ''wind_deg'', ''clouds_all'', ''collection_time''}"
    by (simp add: columns_def sample_batch_def)
  have f: "snd (validate_data ?L 1704067500000000000 sample_batch) = Returned"
    unfolding validate_data_def using n l by (simp add: Let_def c expected_cols_def)
  from validate_data_stale_is_warning [OF l s f] n show ?thesis by simp
qed

end
